theory Spec2Isabelle
  imports Complex_Main
begin

section \<open>JavaScript values\<close>

text \<open>
  A JavaScript string is a sequence of UTF-16 code units; the model keeps the code units
  as natural numbers. ASCII literals of the source are written through \<open>str\<close>; the
  CJK literals are spelled out by code unit.
\<close>

type_synonym jsstring = "nat list"

definition str :: "string \<Rightarrow> jsstring" where
  "str cs = map of_char cs"

text \<open>Template-literal rendering of an integral Number: decimal digits, with a sign.\<close>

fun digitsOf :: "nat \<Rightarrow> jsstring" where
  "digitsOf n = (if n < 10 then [48 + n] else digitsOf (n div 10) @ [48 + n mod 10])"

declare digitsOf.simps [simp del]

definition numberToString :: "int \<Rightarrow> jsstring" where
  "numberToString i = (if i < 0 then 45 # digitsOf (nat (- i)) else digitsOf (nat i))"

section \<open>Dates\<close>

text \<open>
  \<open>new Date(s).getTime()\<close> is modelled for the date-only ISO form \<open>YYYY-MM-DD\<close>, the
  form of \<open>DUDU_BIRTHDAY\<close> and of the value of an \<open>input type="date"\<close>: the time value
  is UTC midnight of that day, in milliseconds since the epoch (ECMAScript \<open>MakeDay\<close>,
  \<open>MakeDate\<close>). \<open>None\<close> is the time value \<open>NaN\<close> of an invalid date. What a host
  makes of a string that is not of that form, or whose month or day is out of range, is
  left to the host by ECMAScript; the model treats it as invalid.
\<close>

definition msPerDay :: int where
  "msPerDay = 1000 * 60 * 60 * 24"

definition isDigit :: "nat \<Rightarrow> bool" where
  "isDigit c = (48 \<le> c \<and> c \<le> 57)"

fun digitsValue :: "nat \<Rightarrow> jsstring \<Rightarrow> nat" where
  "digitsValue acc [] = acc"
| "digitsValue acc (c # cs) = digitsValue (10 * acc + (c - 48)) cs"

definition isLeapYear :: "int \<Rightarrow> bool" where
  "isLeapYear y = ((y mod 4 = 0 \<and> y mod 100 \<noteq> 0) \<or> y mod 400 = 0)"

definition dayFromYear :: "int \<Rightarrow> int" where
  "dayFromYear y =
     365 * (y - 1970) + (y - 1969) div 4 - (y - 1901) div 100 + (y - 1601) div 400"

definition daysInMonth :: "int \<Rightarrow> nat \<Rightarrow> nat" where
  "daysInMonth y m =
     (if m = 2 then (if isLeapYear y then 29 else 28)
      else if m = 4 \<or> m = 6 \<or> m = 9 \<or> m = 11 then 30 else 31)"

definition daysBeforeMonth :: "int \<Rightarrow> nat \<Rightarrow> nat" where
  "daysBeforeMonth y m = sum_list (map (daysInMonth y) [1..<m])"

definition parseDate :: "jsstring \<Rightarrow> int option" where
  "parseDate s =
     (if length s = 10 \<and> s ! 4 = 45 \<and> s ! 7 = 45
         \<and> list_all isDigit (take 4 s) \<and> list_all isDigit (take 2 (drop 5 s))
         \<and> list_all isDigit (drop 8 s)
      then
        (let y = int (digitsValue 0 (take 4 s));
             m = digitsValue 0 (take 2 (drop 5 s));
             d = digitsValue 0 (drop 8 s)
         in if 1 \<le> m \<and> m \<le> 12 \<and> 1 \<le> d \<and> d \<le> daysInMonth y m
            then Some ((dayFromYear y + int (daysBeforeMonth y m) + int d - 1) * msPerDay)
            else None)
      else None)"

section \<open>Age formatter\<close>

definition DUDU_BIRTHDAY :: jsstring where
  "DUDU_BIRTHDAY = str ''2025-04-01''"

text \<open>
  \<open>calculateAgeLabel\<close>. Both time values are whole numbers of milliseconds, and for
  date-only strings their difference is a whole number of days, so the quotient
  \<open>diffTime / (1000 * 60 * 60 * 24)\<close> is exact and \<open>Math.ceil\<close> of it is the integer
  ceiling. With an invalid date every Number of the function is \<open>NaN\<close>, both comparisons
  are false and the last template is rendered with \<open>NaN\<close> twice.
\<close>

definition tian :: jsstring where
  "tian = [22825]"

definition geyue :: jsstring where
  "geyue = [20491, 26376]"

definition calculateAgeLabel :: "jsstring \<Rightarrow> jsstring" where
  "calculateAgeLabel dateString =
     (case (parseDate DUDU_BIRTHDAY, parseDate dateString) of
        (Some birth, Some target) \<Rightarrow>
          (let diffTime = \<bar>target - birth\<bar>;
               diffDays = - ((- diffTime) div msPerDay)
           in if diffDays < 30 then numberToString diffDays @ tian
              else
                (let months = diffDays div 30;
                     days = diffDays mod 30
                 in if days < 5 then numberToString months @ geyue
                    else numberToString months @ geyue @ numberToString days @ tian))
      | _ \<Rightarrow> str ''NaN'' @ geyue @ str ''NaN'' @ tian)"

section \<open>parseFloat\<close>

text \<open>
  A Number that comes out of \<open>parseFloat\<close>: \<open>NaN\<close>, an infinity, or a finite value. The
  finite value is kept as the exact rational the decimal literal denotes; the rounding to
  the nearest double is not modelled.
\<close>

datatype jsnum = NaN | Infinite bool | Finite rat

text \<open>
  \<open>parseFloat\<close> skips leading white space and reads the longest prefix that is a
  \<open>StrDecimalLiteral\<close>: an optional sign, then \<open>Infinity\<close> or digits with an optional
  fraction and an optional exponent. Whatever follows is ignored; with no such prefix the
  result is \<open>NaN\<close>.
\<close>

definition isWhiteSpace :: "nat \<Rightarrow> bool" where
  "isWhiteSpace c =
     (c \<in> set [9, 10, 11, 12, 13, 32, 160, 5760, 8232, 8233, 8239, 8287, 12288, 65279]
      \<or> (8192 \<le> c \<and> c \<le> 8202))"

definition startsWith :: "jsstring \<Rightarrow> jsstring \<Rightarrow> bool" where
  "startsWith s p = (take (length p) s = p)"

definition pow10 :: "int \<Rightarrow> rat" where
  "pow10 e = (if 0 \<le> e then 10 ^ nat e else 1 / 10 ^ nat (- e))"

definition parseExponent :: "jsstring \<Rightarrow> int" where
  "parseExponent s =
     (case s of
        [] \<Rightarrow> 0
      | c # r \<Rightarrow>
          if c = 101 \<or> c = 69 then
            (let neg = startsWith r [45];
                 r' = (if startsWith r [45] \<or> startsWith r [43] then tl r else r);
                 ds = takeWhile isDigit r'
             in if ds = [] then 0
                else if neg then - int (digitsValue 0 ds) else int (digitsValue 0 ds))
          else 0)"

definition parseUnsigned :: "jsstring \<Rightarrow> jsnum" where
  "parseUnsigned s =
     (if startsWith s (str ''Infinity'') then Infinite True
      else
        (let ip = takeWhile isDigit s;
             r1 = dropWhile isDigit s;
             fp = (if startsWith r1 [46] then takeWhile isDigit (tl r1) else []);
             r2 = (if startsWith r1 [46] then dropWhile isDigit (tl r1) else r1)
         in if ip = [] \<and> fp = [] then NaN
            else Finite (of_nat (digitsValue 0 (ip @ fp))
                          * pow10 (parseExponent r2 - int (length fp)))))"

definition negate :: "jsnum \<Rightarrow> jsnum" where
  "negate x = (case x of NaN \<Rightarrow> NaN | Infinite b \<Rightarrow> Infinite (\<not> b) | Finite q \<Rightarrow> Finite (- q))"

definition parseFloat :: "jsstring \<Rightarrow> jsnum" where
  "parseFloat s =
     (let t = dropWhile isWhiteSpace s
      in if startsWith t [45] then negate (parseUnsigned (tl t))
         else if startsWith t [43] then parseUnsigned (tl t)
         else parseUnsigned t)"

definition isPositive :: "jsnum \<Rightarrow> bool" where
  "isPositive x = (case x of NaN \<Rightarrow> False | Infinite b \<Rightarrow> b | Finite q \<Rightarrow> 0 < q)"

section \<open>Data model\<close>

text \<open>
  The entity interfaces of the source. Fields of different interfaces share names in the
  source (\<open>id\<close>, \<open>category\<close>, \<open>date\<close>, \<open>timestamp\<close>), and the component's state variables
  share them again (\<open>category\<close>, \<open>brand\<close>, ...), so the record fields carry a prefix:
  \<open>f_\<close> for \<open>FoodRecord\<close>, \<open>w_\<close> for \<open>WeightRecord\<close>, \<open>i_\<close> for \<open>ShoppingItem\<close>. The state
  variables keep their names, except \<open>notes\<close>, a keyword of Isabelle, which is \<open>notesText\<close>.
\<close>

datatype CategoryType = canned | pouch | dry | litter | raw

datatype TabType = tab_food | tab_weight | tab_shopping

datatype FilterType = filter_all | filter_category CategoryType

datatype SortType = sort_date | sort_brand | sort_rating

record FoodRecord =
  f_id :: jsstring
  f_category :: CategoryType
  f_brand :: jsstring
  f_flavor :: jsstring
  f_rating :: int
  f_notes :: jsstring
  f_date :: jsstring
  f_timestamp :: int

record WeightRecord =
  w_id :: jsstring
  w_weight :: jsnum
  w_date :: jsstring
  w_timestamp :: "int option"

record ShoppingItem =
  i_id :: jsstring
  i_category :: CategoryType
  i_name :: jsstring
  i_note :: jsstring
  i_isBought :: bool
  i_timestamp :: int

text \<open>The state variables of \<open>App\<close> (its \<open>useState\<close> hooks), with their initial values.\<close>

record AppState =
  currentTab :: TabType
  foodRecords :: "FoodRecord list"
  category :: CategoryType
  brand :: jsstring
  flavor :: jsstring
  rating :: int
  notesText :: jsstring
  filterCategory :: FilterType
  sortBy :: SortType
  weightRecords :: "WeightRecord list"
  weightInput :: jsstring
  measureDate :: jsstring
  shoppingList :: "ShoppingItem list"
  shopName :: jsstring
  shopNote :: jsstring
  isSubmitting :: bool
  editingId :: "jsstring option"

definition initialState :: "jsstring \<Rightarrow> AppState" where
  "initialState todayISO =
     \<lparr> currentTab = tab_food, foodRecords = [], category = canned, brand = [], flavor = [],
       rating = 0, notesText = [], filterCategory = filter_all, sortBy = sort_date,
       weightRecords = [], weightInput = [], measureDate = todayISO, shoppingList = [],
       shopName = [], shopNote = [], isSubmitting = False, editingId = None \<rparr>"

text \<open>
  \<open>editingId\<close> is \<open>string | null\<close> and the source tests it by truthiness
  (\<open>if (editingId)\<close>): \<open>null\<close> and the empty string are both falsy.
\<close>

definition truthy :: "jsstring option \<Rightarrow> bool" where
  "truthy e = (case e of None \<Rightarrow> False | Some i \<Rightarrow> i \<noteq> [])"

section \<open>The remote store and the effects of a handler\<close>

text \<open>
  A document written to the store is an object literal: its keys in source order, each
  with its value. The three store calls of the source are \<open>addDoc\<close>, \<open>updateDoc\<close> and
  \<open>deleteDoc\<close>; each returns a promise that later resolves or rejects with an error.
\<close>

datatype fsvalue =
    VCategory CategoryType
  | VString jsstring
  | VInt int
  | VTime "int option"
  | VNumber jsnum
  | VBool bool

type_synonym payload = "(string \<times> fsvalue) list"

datatype RemoteCall =
    AddDoc jsstring payload
  | UpdateDoc jsstring jsstring payload
  | DeleteDoc jsstring jsstring

type_synonym FirestoreError = jsstring

datatype RemoteResult = Resolved | Rejected FirestoreError

text \<open>
  What a handler does besides setting state, in the order it does it: \<open>alert\<close>,
  \<open>window.confirm\<close>, \<open>console.error\<close>, a call to the store, \<open>window.scrollTo\<close>, and a
  rejection that leaves an \<open>async\<close> handler with no \<open>catch\<close> around it.
\<close>

datatype Effect =
    Alert jsstring
  | Confirm jsstring
  | ConsoleError FirestoreError
  | Remote RemoteCall
  | ScrollToTop
  | UnhandledRejection FirestoreError

definition remoteCalls :: "Effect list \<Rightarrow> RemoteCall list" where
  "remoteCalls es = concat (map (\<lambda>e. case e of Remote c \<Rightarrow> [c] | _ \<Rightarrow> []) es)"

definition alerts :: "Effect list \<Rightarrow> jsstring list" where
  "alerts es = concat (map (\<lambda>e. case e of Alert m \<Rightarrow> [m] | _ \<Rightarrow> []) es)"

definition consoleErrors :: "Effect list \<Rightarrow> FirestoreError list" where
  "consoleErrors es = concat (map (\<lambda>e. case e of ConsoleError m \<Rightarrow> [m] | _ \<Rightarrow> []) es)"

text \<open>The clock readings a handler takes: \<open>new Date().toLocaleDateString()\<close> and \<open>Date.now()\<close>.\<close>

record Env =
  today :: jsstring
  now :: int

text \<open>The message literals of the source.\<close>

definition msgFoodValidation :: jsstring where
  "msgFoodValidation =
     [35531, 22635, 23531, 21697, 29260, 12289, 21475, 21619, 20006, 32102, 20104, 35413,
      20998, 21908, 65281]"

definition msgEditDone :: jsstring where
  "msgEditDone = [20462, 25913, 25104, 21151, 65281]"

definition msgUploadFailed :: jsstring where
  "msgUploadFailed = [19978, 20659, 22833, 25943]"

definition msgWeightValidation :: jsstring where
  "msgWeightValidation = [35531, 36664, 20837, 39636, 37325, 21644, 26085, 26399]"

definition msgWeightFailed :: jsstring where
  "msgWeightFailed = [39636, 37325, 19978, 20659, 22833, 25943]"

definition msgShoppingValidation :: jsstring where
  "msgShoppingValidation =
     [35531, 36664, 20837, 24819, 36023, 30340, 26481, 35199, 21517, 31281]"

definition msgShoppingFailed :: jsstring where
  "msgShoppingFailed = [26032, 22686, 22833, 25943]"

definition msgConfirmDelete :: jsstring where
  "msgConfirmDelete =
     [30906, 23450, 35201, 21034, 38500, 36889, 31558, 32000, 37636, 21966, 65311]"

section \<open>Handlers\<close>

text \<open>
  An \<open>async\<close> handler runs in two parts. The first part runs when the event fires, up
  to the \<open>await\<close> of the store call; the second part runs when the promise settles. The
  second part still reads the state variables of the render in which the handler was
  created (its closure), while its setters write the state of the moment. A handler that
  is waiting is a \<open>Pending\<close>: which handler, and the closure values its second part reads.
  \<open>e.preventDefault()\<close> has no effect on the state and is left out.
\<close>

datatype Pending =
    PendingFoodSubmit "jsstring option"
  | PendingWeightSubmit
  | PendingShoppingSubmit
  | PendingDelete "jsstring option" jsstring
  | PendingToggle

definition handleFoodSubmit_start ::
  "Env \<Rightarrow> AppState \<Rightarrow> AppState \<times> Effect list \<times> Pending option" where
  "handleFoodSubmit_start env s =
     (if brand s = [] \<or> flavor s = [] \<or> rating s = 0
      then (s, [Alert msgFoodValidation], None)
      else
        (let fields = [(''category'', VCategory (category s)), (''brand'', VString (brand s)),
                       (''flavor'', VString (flavor s)), (''rating'', VInt (rating s)),
                       (''notes'', VString (notesText s))];
             added = AddDoc (str ''records'')
                       (fields @ [(''date'', VString (today env)),
                                  (''timestamp'', VInt (now env))]);
             call = (case editingId s of
                       None \<Rightarrow> added
                     | Some i \<Rightarrow> if i = [] then added else UpdateDoc (str ''records'') i fields)
         in (s\<lparr>isSubmitting := True\<rparr>, [Remote call],
             Some (PendingFoodSubmit (editingId s)))))"

definition handleFoodSubmit_settle ::
  "jsstring option \<Rightarrow> RemoteResult \<Rightarrow> AppState \<Rightarrow> AppState \<times> Effect list" where
  "handleFoodSubmit_settle editingId0 r s =
     (case r of
        Resolved \<Rightarrow>
          (let s1 = (if truthy editingId0 then s\<lparr>editingId := None\<rparr> else s);
               s2 = s1\<lparr>brand := [], flavor := [], rating := 0, notesText := []\<rparr>;
               s3 = (if \<not> truthy editingId0 then s2\<lparr>category := canned\<rparr> else s2)
           in (s3\<lparr>isSubmitting := False\<rparr>,
               if truthy editingId0 then [Alert msgEditDone] else []))
      | Rejected err \<Rightarrow>
          (s\<lparr>isSubmitting := False\<rparr>, [ConsoleError err, Alert msgUploadFailed]))"

definition handleWeightSubmit_start ::
  "AppState \<Rightarrow> AppState \<times> Effect list \<times> Pending option" where
  "handleWeightSubmit_start s =
     (if weightInput s = [] \<or> measureDate s = []
      then (s, [Alert msgWeightValidation], None)
      else (s\<lparr>isSubmitting := True\<rparr>,
            [Remote (AddDoc (str ''weight_records'')
               [(''weight'', VNumber (parseFloat (weightInput s))),
                (''date'', VString (measureDate s)),
                (''timestamp'', VTime (parseDate (measureDate s)))])],
            Some PendingWeightSubmit))"

definition handleWeightSubmit_settle ::
  "RemoteResult \<Rightarrow> AppState \<Rightarrow> AppState \<times> Effect list" where
  "handleWeightSubmit_settle r s =
     (case r of
        Resolved \<Rightarrow> (s\<lparr>weightInput := [], isSubmitting := False\<rparr>, [])
      | Rejected err \<Rightarrow>
          (s\<lparr>isSubmitting := False\<rparr>, [ConsoleError err, Alert msgWeightFailed]))"

definition handleShoppingSubmit_start ::
  "Env \<Rightarrow> AppState \<Rightarrow> AppState \<times> Effect list \<times> Pending option" where
  "handleShoppingSubmit_start env s =
     (if shopName s = []
      then (s, [Alert msgShoppingValidation], None)
      else (s\<lparr>isSubmitting := True\<rparr>,
            [Remote (AddDoc (str ''shopping_list'')
               [(''category'', VCategory (category s)),
                (''name'', VString (shopName s)),
                (''note'', VString (shopNote s)),
                (''isBought'', VBool False),
                (''timestamp'', VInt (now env))])],
            Some PendingShoppingSubmit))"

definition handleShoppingSubmit_settle ::
  "RemoteResult \<Rightarrow> AppState \<Rightarrow> AppState \<times> Effect list" where
  "handleShoppingSubmit_settle r s =
     (case r of
        Resolved \<Rightarrow> (s\<lparr>shopName := [], shopNote := [], isSubmitting := False\<rparr>, [])
      | Rejected err \<Rightarrow>
          (s\<lparr>isSubmitting := False\<rparr>, [ConsoleError err, Alert msgShoppingFailed]))"

definition handleEdit :: "FoodRecord \<Rightarrow> AppState \<Rightarrow> AppState \<times> Effect list" where
  "handleEdit rec s =
     (s\<lparr>editingId := Some (f_id rec), category := f_category rec, brand := f_brand rec,
        flavor := f_flavor rec, rating := f_rating rec, notesText := f_notes rec\<rparr>,
      [ScrollToTop])"

definition handleCancelEdit :: "AppState \<Rightarrow> AppState" where
  "handleCancelEdit s =
     s\<lparr>editingId := None, brand := [], flavor := [], rating := 0, notesText := []\<rparr>"

text \<open>
  \<open>handleDelete\<close>: the answer to \<open>window.confirm\<close> is an input. There is no \<open>try\<close> in
  this handler, so a rejected \<open>deleteDoc\<close> ends it at the \<open>await\<close> and the rejection is
  nobody's.
\<close>

definition handleDelete_start ::
  "bool \<Rightarrow> jsstring \<Rightarrow> jsstring \<Rightarrow> AppState \<Rightarrow> AppState \<times> Effect list \<times> Pending option" where
  "handleDelete_start confirmed ident colName s =
     (if confirmed
      then (s, [Confirm msgConfirmDelete, Remote (DeleteDoc colName ident)],
            Some (PendingDelete (editingId s) ident))
      else (s, [Confirm msgConfirmDelete], None))"

definition handleDelete_settle ::
  "jsstring option \<Rightarrow> jsstring \<Rightarrow> RemoteResult \<Rightarrow> AppState \<Rightarrow> AppState \<times> Effect list" where
  "handleDelete_settle editingId0 ident r s =
     (case r of
        Resolved \<Rightarrow> (if editingId0 = Some ident then handleCancelEdit s else s, [])
      | Rejected err \<Rightarrow> (s, [UnhandledRejection err]))"

definition toggleBought_start ::
  "ShoppingItem \<Rightarrow> AppState \<Rightarrow> AppState \<times> Effect list \<times> Pending option" where
  "toggleBought_start item s =
     (s, [Remote (UpdateDoc (str ''shopping_list'') (i_id item)
                    [(''isBought'', VBool (\<not> i_isBought item))])],
      Some PendingToggle)"

definition toggleBought_settle ::
  "RemoteResult \<Rightarrow> AppState \<Rightarrow> AppState \<times> Effect list" where
  "toggleBought_settle r s =
     (case r of Resolved \<Rightarrow> (s, []) | Rejected err \<Rightarrow> (s, [ConsoleError err]))"

text \<open>The second part of whichever handler is waiting.\<close>

fun settle :: "Pending \<Rightarrow> RemoteResult \<Rightarrow> AppState \<Rightarrow> AppState \<times> Effect list" where
  "settle (PendingFoodSubmit editingId0) r s = handleFoodSubmit_settle editingId0 r s"
| "settle PendingWeightSubmit r s = handleWeightSubmit_settle r s"
| "settle PendingShoppingSubmit r s = handleShoppingSubmit_settle r s"
| "settle (PendingDelete editingId0 ident) r s = handleDelete_settle editingId0 ident r s"
| "settle PendingToggle r s = toggleBought_settle r s"

text \<open>
  A handler run from its event to the end with nothing in between: the promise settles
  with \<open>r\<close> before any other event is handled.
\<close>

definition complete ::
  "RemoteResult \<Rightarrow> AppState \<times> Effect list \<times> Pending option \<Rightarrow> AppState \<times> Effect list" where
  "complete r started =
     (case started of
        (s1, es1, None) \<Rightarrow> (s1, es1)
      | (s1, es1, Some p) \<Rightarrow> (fst (settle p r s1), es1 @ snd (settle p r s1)))"

definition handleFoodSubmit :: "Env \<Rightarrow> RemoteResult \<Rightarrow> AppState \<Rightarrow> AppState \<times> Effect list" where
  "handleFoodSubmit env r s = complete r (handleFoodSubmit_start env s)"

definition handleWeightSubmit :: "RemoteResult \<Rightarrow> AppState \<Rightarrow> AppState \<times> Effect list" where
  "handleWeightSubmit r s = complete r (handleWeightSubmit_start s)"

definition handleShoppingSubmit ::
  "Env \<Rightarrow> RemoteResult \<Rightarrow> AppState \<Rightarrow> AppState \<times> Effect list" where
  "handleShoppingSubmit env r s = complete r (handleShoppingSubmit_start env s)"

definition handleDelete ::
  "bool \<Rightarrow> jsstring \<Rightarrow> jsstring \<Rightarrow> RemoteResult \<Rightarrow> AppState \<Rightarrow> AppState \<times> Effect list" where
  "handleDelete confirmed ident colName r s =
     complete r (handleDelete_start confirmed ident colName s)"

definition toggleBought :: "ShoppingItem \<Rightarrow> RemoteResult \<Rightarrow> AppState \<Rightarrow> AppState \<times> Effect list" where
  "toggleBought item r s = complete r (toggleBought_start item s)"

text \<open>The three \<open>onSnapshot\<close> callbacks: each replaces its list and touches nothing else.\<close>

definition onFoodSnapshot :: "FoodRecord list \<Rightarrow> AppState \<Rightarrow> AppState" where
  "onFoodSnapshot data s = s\<lparr>foodRecords := data\<rparr>"

definition onWeightSnapshot :: "WeightRecord list \<Rightarrow> AppState \<Rightarrow> AppState" where
  "onWeightSnapshot data s = s\<lparr>weightRecords := data\<rparr>"

definition onShoppingSnapshot :: "ShoppingItem list \<Rightarrow> AppState \<Rightarrow> AppState" where
  "onShoppingSnapshot data s = s\<lparr>shoppingList := data\<rparr>"

text \<open>The edit session the state stands for.\<close>

datatype EditSession = Idle | Editing jsstring

definition session :: "AppState \<Rightarrow> EditSession" where
  "session s = (case editingId s of None \<Rightarrow> Idle | Some i \<Rightarrow> if i = [] then Idle else Editing i)"

section \<open>Derived views\<close>

text \<open>
  \<open>chartData\<close>: one point per weight record, in the order of the records, each with its
  age label.
\<close>

record ChartPoint =
  c_record :: WeightRecord
  c_ageLabel :: jsstring

definition chartData :: "WeightRecord list \<Rightarrow> ChartPoint list" where
  "chartData ws = map (\<lambda>rec. \<lparr>c_record = rec, c_ageLabel = calculateAgeLabel (w_date rec)\<rparr>) ws"

text \<open>
  \<open>displayedRecords\<close> is \<open>foodRecords.filter(...).sort(...)\<close>. \<open>filter\<close> builds a new
  array and \<open>sort\<close> reorders the array it is called on, in place, so whether the state's
  own array is touched depends on which array \<open>sort\<close> receives. The arrays therefore live
  in a store, addressed by position; \<open>array_filter\<close> allocates and \<open>array_sort\<close>
  overwrites.

  \<open>Array.prototype.sort\<close> is stable, and with a consistent comparator its result is the
  one stable ordering; the model computes it by insertion. \<open>localeCompare\<close> with the
  \<open>zh-TW\<close> collation is the host's: the model takes the collation key of a string as a
  parameter and compares keys.
\<close>

type_synonym 'a store = "'a list list"

fun insert_cmp :: "('a \<Rightarrow> 'a \<Rightarrow> int) \<Rightarrow> 'a \<Rightarrow> 'a list \<Rightarrow> 'a list" where
  "insert_cmp cmp x [] = [x]"
| "insert_cmp cmp x (y # ys) = (if cmp x y \<le> 0 then x # y # ys else y # insert_cmp cmp x ys)"

definition sort_cmp :: "('a \<Rightarrow> 'a \<Rightarrow> int) \<Rightarrow> 'a list \<Rightarrow> 'a list" where
  "sort_cmp cmp xs = foldr (insert_cmp cmp) xs []"

definition array_filter :: "('a \<Rightarrow> bool) \<Rightarrow> nat \<Rightarrow> 'a store \<Rightarrow> nat \<times> 'a store" where
  "array_filter p a h = (length h, h @ [filter p (h ! a)])"

definition array_sort :: "('a \<Rightarrow> 'a \<Rightarrow> int) \<Rightarrow> nat \<Rightarrow> 'a store \<Rightarrow> nat \<times> 'a store" where
  "array_sort cmp a h = (a, h[a := sort_cmp cmp (h ! a)])"

definition localeCompare :: "(jsstring \<Rightarrow> 'k::linorder) \<Rightarrow> jsstring \<Rightarrow> jsstring \<Rightarrow> int" where
  "localeCompare collationKey a b =
     (if collationKey a < collationKey b then - 1
      else if collationKey b < collationKey a then 1 else 0)"

definition matchesFilter :: "FilterType \<Rightarrow> FoodRecord \<Rightarrow> bool" where
  "matchesFilter fc rec =
     (case fc of filter_all \<Rightarrow> True | filter_category c \<Rightarrow> f_category rec = c)"

definition compareRecords ::
  "(jsstring \<Rightarrow> 'k::linorder) \<Rightarrow> SortType \<Rightarrow> FoodRecord \<Rightarrow> FoodRecord \<Rightarrow> int" where
  "compareRecords collationKey sb a b =
     (if sb = sort_date then f_timestamp b - f_timestamp a
      else if sb = sort_rating then f_rating b - f_rating a
      else if sb = sort_brand then localeCompare collationKey (f_brand a) (f_brand b)
      else 0)"

definition displayedRecords ::
  "(jsstring \<Rightarrow> 'k::linorder) \<Rightarrow> FilterType \<Rightarrow> SortType \<Rightarrow> nat \<Rightarrow> FoodRecord store
     \<Rightarrow> nat \<times> FoodRecord store" where
  "displayedRecords collationKey fc sb foodRecordsAt h =
     (case array_filter (matchesFilter fc) foodRecordsAt h of
        (filtered, h1) \<Rightarrow> array_sort (compareRecords collationKey sb) filtered h1)"

section \<open>The component as a transition system\<close>

text \<open>
  The component between events: its state, the handlers that are waiting for the store,
  and everything done so far. An event is a user action, a snapshot from the store, or the
  settling of a waiting handler's promise (\<open>Settle k r\<close>: the \<open>k\<close>-th one, with \<open>r\<close>).

  The submit button of each of the three forms has \<open>disabled={isSubmitting}\<close>, and a form
  is rendered only on its own tab; a submit event is possible only then. The other user
  events are allowed in every state, which is more than the page allows. The category
  selector of the food form and the one of the shopping form have the same \<open>value\<close>,
  the state variable \<open>category\<close>, and the same \<open>onChange\<close>, which is \<open>SetCategory\<close>.
\<close>

record System =
  app :: AppState
  inflight :: "Pending list"
  effects :: "Effect list"

datatype Event =
    SetCurrentTab TabType
  | SetCategory CategoryType
  | SetBrand jsstring
  | SetFlavor jsstring
  | SetRating int
  | SetNotes jsstring
  | SetFilterCategory FilterType
  | SetSortBy SortType
  | SetWeightInput jsstring
  | SetMeasureDate jsstring
  | SetShopName jsstring
  | SetShopNote jsstring
  | SubmitFood Env
  | SubmitWeight
  | SubmitShopping Env
  | ClickEdit FoodRecord
  | ClickCancelEdit
  | ClickDelete bool jsstring jsstring
  | ClickToggle ShoppingItem
  | FoodSnapshot "FoodRecord list"
  | WeightSnapshot "WeightRecord list"
  | ShoppingSnapshot "ShoppingItem list"
  | Settle nat RemoteResult

definition submitDisabled :: "TabType \<Rightarrow> AppState \<Rightarrow> bool" where
  "submitDisabled form s = isSubmitting s"

definition canSubmit :: "TabType \<Rightarrow> AppState \<Rightarrow> bool" where
  "canSubmit form s = (currentTab s = form \<and> \<not> submitDisabled form s)"

definition setState :: "(AppState \<Rightarrow> AppState) \<Rightarrow> System \<Rightarrow> System option" where
  "setState f sys = Some (sys\<lparr>app := f (app sys)\<rparr>)"

definition started :: "AppState \<times> Effect list \<times> Pending option \<Rightarrow> System \<Rightarrow> System option" where
  "started res sys =
     (case res of
        (s1, es, p) \<Rightarrow>
          Some \<lparr>app = s1,
                inflight = inflight sys @ (case p of None \<Rightarrow> [] | Some q \<Rightarrow> [q]),
                effects = effects sys @ es\<rparr>)"

fun step :: "Event \<Rightarrow> System \<Rightarrow> System option" where
  "step (SetCurrentTab t) sys = setState (\<lambda>s. s\<lparr>currentTab := t\<rparr>) sys"
| "step (SetCategory c) sys = setState (\<lambda>s. s\<lparr>category := c\<rparr>) sys"
| "step (SetBrand v) sys = setState (\<lambda>s. s\<lparr>brand := v\<rparr>) sys"
| "step (SetFlavor v) sys = setState (\<lambda>s. s\<lparr>flavor := v\<rparr>) sys"
| "step (SetRating n) sys = setState (\<lambda>s. s\<lparr>rating := n\<rparr>) sys"
| "step (SetNotes v) sys = setState (\<lambda>s. s\<lparr>notesText := v\<rparr>) sys"
| "step (SetFilterCategory fc) sys = setState (\<lambda>s. s\<lparr>filterCategory := fc\<rparr>) sys"
| "step (SetSortBy sb) sys = setState (\<lambda>s. s\<lparr>sortBy := sb\<rparr>) sys"
| "step (SetWeightInput v) sys = setState (\<lambda>s. s\<lparr>weightInput := v\<rparr>) sys"
| "step (SetMeasureDate v) sys = setState (\<lambda>s. s\<lparr>measureDate := v\<rparr>) sys"
| "step (SetShopName v) sys = setState (\<lambda>s. s\<lparr>shopName := v\<rparr>) sys"
| "step (SetShopNote v) sys = setState (\<lambda>s. s\<lparr>shopNote := v\<rparr>) sys"
| "step (SubmitFood env) sys =
     (if canSubmit tab_food (app sys)
      then started (handleFoodSubmit_start env (app sys)) sys else None)"
| "step SubmitWeight sys =
     (if canSubmit tab_weight (app sys)
      then started (handleWeightSubmit_start (app sys)) sys else None)"
| "step (SubmitShopping env) sys =
     (if canSubmit tab_shopping (app sys)
      then started (handleShoppingSubmit_start env (app sys)) sys else None)"
| "step (ClickEdit rec) sys =
     started (fst (handleEdit rec (app sys)), snd (handleEdit rec (app sys)), None) sys"
| "step ClickCancelEdit sys = setState handleCancelEdit sys"
| "step (ClickDelete confirmed ident colName) sys =
     started (handleDelete_start confirmed ident colName (app sys)) sys"
| "step (ClickToggle item) sys = started (toggleBought_start item (app sys)) sys"
| "step (FoodSnapshot data) sys = setState (onFoodSnapshot data) sys"
| "step (WeightSnapshot data) sys = setState (onWeightSnapshot data) sys"
| "step (ShoppingSnapshot data) sys = setState (onShoppingSnapshot data) sys"
| "step (Settle k r) sys =
     (if k < length (inflight sys)
      then Some \<lparr>app = fst (settle (inflight sys ! k) r (app sys)),
                 inflight = take k (inflight sys) @ drop (Suc k) (inflight sys),
                 effects = effects sys @ snd (settle (inflight sys ! k) r (app sys))\<rparr>
      else None)"

fun run :: "Event list \<Rightarrow> System \<Rightarrow> System option" where
  "run [] sys = Some sys"
| "run (ev # evs) sys = (case step ev sys of None \<Rightarrow> None | Some sys' \<Rightarrow> run evs sys')"

definition initialSystem :: "jsstring \<Rightarrow> System" where
  "initialSystem todayISO = \<lparr>app = initialState todayISO, inflight = [], effects = []\<rparr>"

text \<open>The waiting handlers that are form submissions, the ones that set \<open>isSubmitting\<close>.\<close>

fun isSubmission :: "Pending \<Rightarrow> bool" where
  "isSubmission (PendingFoodSubmit e) = True"
| "isSubmission PendingWeightSubmit = True"
| "isSubmission PendingShoppingSubmit = True"
| "isSubmission (PendingDelete e i) = False"
| "isSubmission PendingToggle = False"

definition submissionsInFlight :: "System \<Rightarrow> Pending list" where
  "submissionsInFlight sys = filter isSubmission (inflight sys)"

text \<open>
  The invariant that ties the flag to the waiting submissions: one is waiting exactly when
  \<open>isSubmitting\<close> is set, and never more than one.
\<close>

definition flagMatchesInFlight :: "System \<Rightarrow> bool" where
  "flagMatchesInFlight sys =
     (length (submissionsInFlight sys) = (if isSubmitting (app sys) then 1 else 0))"

text \<open>
  A store call that is an \<open>updateDoc\<close> writes the mutable fields of its collection and no
  other: the five form fields of a food record, or \<open>isBought\<close> of a shopping item.
\<close>

definition mutableFieldsOnly :: "RemoteCall \<Rightarrow> bool" where
  "mutableFieldsOnly call =
     (case call of
        UpdateDoc col ident p \<Rightarrow>
          (col = str ''records''
             \<and> map fst p = [''category'', ''brand'', ''flavor'', ''rating'', ''notes''])
          \<or> (col = str ''shopping_list'' \<and> map fst p = [''isBought''])
      | _ \<Rightarrow> True)"

section \<open>Example states\<close>

text \<open>
  The states and events the examples below are evaluated at. \<open>scenarioState\<close> is the
  food form filled in with category \<open>dry\<close>, the brand "Orijen" followed by its two-character
  Chinese name, a two-character flavor, and rating 5; \<open>editingState\<close> is the state after
  the record \<open>sampleRecord\<close> has arrived in a snapshot and its edit button has been clicked.
\<close>

definition scenarioEnv :: Env where
  "scenarioEnv = \<lparr>today = str ''2025/4/1'', now = 1743465600000\<rparr>"

definition scenarioState :: AppState where
  "scenarioState = (initialState (str ''2025-04-01''))
     \<lparr>category := dry, brand := [79, 114, 105, 106, 101, 110, 32, 28212, 26395],
      flavor := [38622, 32905], rating := 5\<rparr>"

definition scenarioEvents :: "Event list" where
  "scenarioEvents =
     [SetCategory dry, SetBrand [79, 114, 105, 106, 101, 110, 32, 28212, 26395],
      SetFlavor [38622, 32905], SetRating 5, SubmitFood scenarioEnv]"

definition submittedSystem :: System where
  "submittedSystem =
     \<lparr>app = scenarioState\<lparr>isSubmitting := True\<rparr>,
      inflight = [PendingFoodSubmit None],
      effects = [Remote (AddDoc (str ''records'')
                  [(''category'', VCategory dry),
                   (''brand'', VString [79, 114, 105, 106, 101, 110, 32, 28212, 26395]),
                   (''flavor'', VString [38622, 32905]), (''rating'', VInt 5),
                   (''notes'', VString []), (''date'', VString (str ''2025/4/1'')),
                   (''timestamp'', VInt 1743465600000)])]\<rparr>"

definition zeroWeightState :: AppState where
  "zeroWeightState = (initialState (str ''2025-04-01''))\<lparr>weightInput := str ''0''\<rparr>"

definition shoppingState :: AppState where
  "shoppingState = (initialState (str ''2025-04-01''))\<lparr>shopName := str ''can''\<rparr>"

definition sampleItem :: ShoppingItem where
  "sampleItem = \<lparr>i_id = str ''item1'', i_category = canned, i_name = str ''can'',
                 i_note = [], i_isBought = False, i_timestamp = 1743465600000\<rparr>"

definition sampleRecord :: FoodRecord where
  "sampleRecord = \<lparr>f_id = str ''rec1'', f_category = dry, f_brand = str ''Halo'',
                   f_flavor = str ''tuna'', f_rating = 4, f_notes = str ''ok'',
                   f_date = str ''2025/4/1'', f_timestamp = 1743465600000\<rparr>"

definition editingState :: AppState where
  "editingState =
     fst (handleEdit sampleRecord
            (onFoodSnapshot [sampleRecord] (initialState (str ''2025-04-01''))))"

definition editEvents :: "Event list" where
  "editEvents = [FoodSnapshot [sampleRecord], ClickEdit sampleRecord, SubmitFood scenarioEnv]"

definition updatingSystem :: System where
  "updatingSystem =
     \<lparr>app = editingState\<lparr>isSubmitting := True\<rparr>,
      inflight = [PendingFoodSubmit (Some (str ''rec1''))],
      effects = [ScrollToTop,
                 Remote (UpdateDoc (str ''records'') (str ''rec1'')
                  [(''category'', VCategory dry), (''brand'', VString (str ''Halo'')),
                   (''flavor'', VString (str ''tuna'')), (''rating'', VInt 4),
                   (''notes'', VString (str ''ok''))])]\<rparr>"

definition threeRecords :: "FoodRecord list" where
  "threeRecords =
     [sampleRecord\<lparr>f_id := str ''a'', f_rating := 3\<rparr>,
      sampleRecord\<lparr>f_id := str ''b'', f_rating := 5\<rparr>,
      sampleRecord\<lparr>f_id := str ''c'', f_rating := 3\<rparr>]"

definition settledSystem :: System where
  "settledSystem =
     \<lparr>app = scenarioState,
      inflight = [],
      effects = effects submittedSystem
                  @ [ConsoleError (str ''unavailable''), Alert msgUploadFailed]\<rparr>"

definition shoppingSystem :: System where
  "shoppingSystem = \<lparr>app = shoppingState, inflight = [], effects = []\<rparr>"

definition deletingSystem :: System where
  "deletingSystem =
     \<lparr>app = editingState,
      inflight = [PendingDelete (Some (str ''rec1'')) (str ''rec1'')],
      effects = [ScrollToTop, Confirm msgConfirmDelete,
                 Remote (DeleteDoc (str ''records'') (str ''rec1''))]\<rparr>"

definition deleteEvents :: "Event list" where
  "deleteEvents =
     [FoodSnapshot [sampleRecord], ClickEdit sampleRecord,
      ClickDelete True (str ''rec1'') (str ''records'')]"

definition deletedSystem :: System where
  "deletedSystem =
     \<lparr>app = handleCancelEdit editingState,
      inflight = [],
      effects = [ScrollToTop, Confirm msgConfirmDelete,
                 Remote (DeleteDoc (str ''records'') (str ''rec1''))]\<rparr>"

section \<open>Properties of the age formatter\<close>

lemmas date_defs =
  parseDate_def str_def isDigit_def daysInMonth_def daysBeforeMonth_def dayFromYear_def
  isLeapYear_def msPerDay_def upt_rec

lemma parseDate_birthday: "parseDate DUDU_BIRTHDAY = Some 1743465600000"
  by (simp add: DUDU_BIRTHDAY_def date_defs)

lemma ceil_whole_days: "- ((- (n * msPerDay)) div msPerDay) = n"
  by (simp add: msPerDay_def)

lemma calculateAgeLabel_days:
  assumes "parseDate d = Some t" and "\<bar>t - 1743465600000\<bar> = n * msPerDay"
  shows "calculateAgeLabel d =
           (if n < 30 then numberToString n @ tian
            else if n mod 30 < 5 then numberToString (n div 30) @ geyue
            else numberToString (n div 30) @ geyue @ numberToString (n mod 30) @ tian)"
  using assms
  by (simp add: calculateAgeLabel_def parseDate_birthday ceil_whole_days Let_def
           del: mult_minus_left)

lemmas show_defs = numberToString_def digitsOf.simps str_def tian_def geyue_def

lemma parse_0401: "parseDate (str ''2025-04-01'') = Some 1743465600000"
  by (simp add: date_defs)

lemma parse_0501: "parseDate (str ''2025-05-01'') = Some (1743465600000 + 30 * msPerDay)"
  by (simp add: date_defs)

lemma parse_0504: "parseDate (str ''2025-05-04'') = Some (1743465600000 + 33 * msPerDay)"
  by (simp add: date_defs)

lemma parse_0226: "parseDate (str ''2025-02-26'') = Some (1743465600000 - 34 * msPerDay)"
  by (simp add: date_defs)

lemma parse_0506: "parseDate (str ''2025-05-06'') = Some (1743465600000 + 35 * msPerDay)"
  by (simp add: date_defs)

lemma label_0504: "calculateAgeLabel (str ''2025-05-04'') = str ''1'' @ geyue"
proof -
  have "\<bar>(1743465600000 + 33 * msPerDay) - 1743465600000\<bar> = 33 * msPerDay"
    by (simp add: msPerDay_def)
  from calculateAgeLabel_days [OF parse_0504 this] show ?thesis
    by (simp add: numberToString_def digitsOf.simps str_def)
qed

text \<open>
  C2, as the spec states it, fails at 33 days. 4 May 2025 is 33 days after the birthday;
  the remainder 3 is below 5, so the label is the month alone, "1" followed by the two
  characters for "month", and not "1 month 3 days".
\<close>

theorem age_label_33_days_counterexample:
  "parseDate DUDU_BIRTHDAY = Some 1743465600000
   \<and> parseDate (str ''2025-05-04'') = Some (1743465600000 + 33 * msPerDay)
   \<and> calculateAgeLabel (str ''2025-05-04'') = str ''1'' @ geyue
   \<and> calculateAgeLabel (str ''2025-05-04'') \<noteq> str ''1'' @ geyue @ str ''3'' @ tian"
  by (simp add: parseDate_birthday parse_0504 label_0504 tian_def)

text \<open>
  C2, amended: for a date \<open>d\<close> that parses, the label is "0 days" when \<open>d\<close> is the birth
  date, the month alone ("1 month") when the elapsed difference is exactly 30, 33 or 34
  days, the remainders 0, 3 and 4 being suppressed, and "1 month 5 days" at 35 days,
  the first remainder that is shown. The difference is absolute, so the dates before
  the birth date are covered as well.
\<close>

theorem age_label_boundaries:
  assumes "parseDate d = Some t" and "parseDate DUDU_BIRTHDAY = Some birth"
  shows "(t = birth \<longrightarrow> calculateAgeLabel d = str ''0'' @ tian)
       \<and> (\<bar>t - birth\<bar> = 30 * msPerDay \<longrightarrow> calculateAgeLabel d = str ''1'' @ geyue)
       \<and> (\<bar>t - birth\<bar> = 33 * msPerDay \<longrightarrow> calculateAgeLabel d = str ''1'' @ geyue)
       \<and> (\<bar>t - birth\<bar> = 34 * msPerDay \<longrightarrow> calculateAgeLabel d = str ''1'' @ geyue)
       \<and> (\<bar>t - birth\<bar> = 35 * msPerDay
            \<longrightarrow> calculateAgeLabel d = str ''1'' @ geyue @ str ''5'' @ tian)"
proof -
  have b: "birth = 1743465600000"
    using assms(2) by (simp add: parseDate_birthday)
  have days: "\<bar>t - birth\<bar> = n * msPerDay \<Longrightarrow> calculateAgeLabel d =
           (if n < 30 then numberToString n @ tian
            else if n mod 30 < 5 then numberToString (n div 30) @ geyue
            else numberToString (n div 30) @ geyue @ numberToString (n mod 30) @ tian)" for n
    using calculateAgeLabel_days [OF assms(1), of n] by (simp add: b)
  have "t = birth \<Longrightarrow> calculateAgeLabel d = str ''0'' @ tian"
    using days [of 0] by (simp add: show_defs)
  moreover have "\<bar>t - birth\<bar> = 30 * msPerDay \<Longrightarrow> calculateAgeLabel d = str ''1'' @ geyue"
    using days [of 30] by (simp add: show_defs)
  moreover have "\<bar>t - birth\<bar> = 33 * msPerDay \<Longrightarrow> calculateAgeLabel d = str ''1'' @ geyue"
    using days [of 33] by (simp add: show_defs)
  moreover have "\<bar>t - birth\<bar> = 34 * msPerDay \<Longrightarrow> calculateAgeLabel d = str ''1'' @ geyue"
    using days [of 34] by (simp add: show_defs)
  moreover have "\<bar>t - birth\<bar> = 35 * msPerDay
      \<Longrightarrow> calculateAgeLabel d = str ''1'' @ geyue @ str ''5'' @ tian"
    using days [of 35] by (simp add: show_defs)
  ultimately show ?thesis by blast
qed

theorem age_label_boundaries_witness:
  "calculateAgeLabel (str ''2025-04-01'') = str ''0'' @ tian
   \<and> calculateAgeLabel (str ''2025-05-01'') = str ''1'' @ geyue
   \<and> calculateAgeLabel (str ''2025-05-04'') = str ''1'' @ geyue
   \<and> calculateAgeLabel (str ''2025-02-26'') = str ''1'' @ geyue
   \<and> calculateAgeLabel (str ''2025-05-06'') = str ''1'' @ geyue @ str ''5'' @ tian"
  using age_label_boundaries [OF parse_0401 parseDate_birthday]
        age_label_boundaries [OF parse_0501 parseDate_birthday]
        age_label_boundaries [OF parse_0504 parseDate_birthday]
        age_label_boundaries [OF parse_0226 parseDate_birthday]
        age_label_boundaries [OF parse_0506 parseDate_birthday]
  by (simp add: msPerDay_def)

section \<open>Properties of the handlers\<close>

lemmas handler_defs =
  handleFoodSubmit_def handleFoodSubmit_start_def handleFoodSubmit_settle_def
  handleWeightSubmit_def handleWeightSubmit_start_def handleWeightSubmit_settle_def
  handleShoppingSubmit_def handleShoppingSubmit_start_def handleShoppingSubmit_settle_def
  handleDelete_def handleDelete_start_def handleDelete_settle_def handleCancelEdit_def
  toggleBought_def toggleBought_start_def toggleBought_settle_def
  handleEdit_def complete_def remoteCalls_def alerts_def consoleErrors_def truthy_def
  session_def Let_def

lemmas parseFloat_defs =
  parseFloat_def parseUnsigned_def parseExponent_def startsWith_def isWhiteSpace_def
  isDigit_def str_def pow10_def negate_def isPositive_def

lemmas example_defs =
  scenarioState_def scenarioEnv_def zeroWeightState_def shoppingState_def sampleItem_def
  sampleRecord_def editingState_def initialState_def onFoodSnapshot_def

lemma str_rec1: "str ''rec1'' \<noteq> []"
  by (simp add: str_def)

lemma parseFloat_zero: "parseFloat (str ''0'') = Finite 0"
  by (simp add: parseFloat_defs)

subsection \<open>Validation of the food form\<close>

text \<open>
  C6: a food submission with rating 0, or an empty brand, or an empty flavor stops at the
  local check. The handler shows the validation message and returns: no call to the
  store is made, nothing is left waiting and the state is as it was. This holds in
  create mode and in edit mode alike, whatever the store would have answered.
\<close>

theorem food_validation_stops_before_store:
  assumes "rating s = 0 \<or> brand s = [] \<or> flavor s = []"
  shows "handleFoodSubmit env r s = (s, [Alert msgFoodValidation])
       \<and> remoteCalls (snd (handleFoodSubmit env r s)) = []
       \<and> handleFoodSubmit_start env s = (s, [Alert msgFoodValidation], None)"
  using assms by (auto simp: handler_defs)

theorem food_validation_stops_before_store_witness:
  "rating (initialState (str ''2025-04-01'')) = 0
   \<and> handleFoodSubmit scenarioEnv Resolved (initialState (str ''2025-04-01''))
      = (initialState (str ''2025-04-01''), [Alert msgFoodValidation])
   \<and> remoteCalls (snd (handleFoodSubmit scenarioEnv Resolved
                          (initialState (str ''2025-04-01'')))) = []"
  using food_validation_stops_before_store
          [of "initialState (str ''2025-04-01'')" scenarioEnv Resolved]
  by (simp add: initialState_def remoteCalls_def)

subsection \<open>Creating a food record\<close>

text \<open>
  C5, as the spec states it, fails when the store rejects the insert. With the valid
  input of the spec's scenario and an idle session, a rejected \<open>addDoc\<close> leaves the
  category at \<open>dry\<close>: \<open>setCategory('canned')\<close> stands inside the \<open>try\<close>, after the
  \<open>await\<close>, and is skipped by the jump to \<open>catch\<close>.
\<close>

theorem food_create_rejected_counterexample:
  "brand scenarioState \<noteq> [] \<and> flavor scenarioState \<noteq> [] \<and> rating scenarioState = 5
   \<and> session scenarioState = Idle
   \<and> category (fst (handleFoodSubmit scenarioEnv (Rejected (str ''unavailable''))
                       scenarioState)) = dry"
  by (simp add: example_defs handler_defs)

text \<open>
  C5, amended: for every valid food input (brand and flavor not empty, rating from 1 to 5)
  submitted while the session is idle, the handler makes exactly one call to the store,
  the insert of the five form fields followed by the generated date and timestamp;
  afterwards \<open>isSubmitting\<close> is false and the session is still idle. When the insert
  resolves, the category is back at \<open>canned\<close>; when it is rejected, the category stays
  as the user chose it.
\<close>

theorem food_create_one_insert:
  assumes "brand s \<noteq> []" and "flavor s \<noteq> []" and "1 \<le> rating s \<and> rating s \<le> 5"
    and "session s = Idle"
  shows "remoteCalls (snd (handleFoodSubmit env r s)) =
           [AddDoc (str ''records'')
              [(''category'', VCategory (category s)), (''brand'', VString (brand s)),
               (''flavor'', VString (flavor s)), (''rating'', VInt (rating s)),
               (''notes'', VString (notesText s)), (''date'', VString (today env)),
               (''timestamp'', VInt (now env))]]
       \<and> \<not> isSubmitting (fst (handleFoodSubmit env r s))
       \<and> session (fst (handleFoodSubmit env r s)) = Idle
       \<and> (r = Resolved \<longrightarrow> category (fst (handleFoodSubmit env r s)) = canned)
       \<and> (r \<noteq> Resolved \<longrightarrow> category (fst (handleFoodSubmit env r s)) = category s)"
  using assms
  by (cases r) (auto simp: handler_defs split: option.splits if_splits)

theorem food_create_one_insert_witness:
  "brand scenarioState \<noteq> [] \<and> flavor scenarioState \<noteq> [] \<and> rating scenarioState = 5
   \<and> session scenarioState = Idle
   \<and> remoteCalls (snd (handleFoodSubmit scenarioEnv Resolved scenarioState)) =
           [AddDoc (str ''records'')
              [(''category'', VCategory dry),
               (''brand'', VString [79, 114, 105, 106, 101, 110, 32, 28212, 26395]),
               (''flavor'', VString [38622, 32905]), (''rating'', VInt 5),
               (''notes'', VString []), (''date'', VString (str ''2025/4/1'')),
               (''timestamp'', VInt 1743465600000)]]
   \<and> \<not> isSubmitting (fst (handleFoodSubmit scenarioEnv Resolved scenarioState))
   \<and> session (fst (handleFoodSubmit scenarioEnv Resolved scenarioState)) = Idle
   \<and> category (fst (handleFoodSubmit scenarioEnv Resolved scenarioState)) = canned
   \<and> category (fst (handleFoodSubmit scenarioEnv (Rejected (str ''unavailable''))
                       scenarioState)) = dry"
  using food_create_one_insert [of scenarioState scenarioEnv Resolved]
        food_create_one_insert [of scenarioState scenarioEnv "Rejected (str ''unavailable'')"]
  by (simp add: scenarioState_def scenarioEnv_def initialState_def session_def)

subsection \<open>Validation of the weight form\<close>

text \<open>
  C3, as the spec states it, fails for a weight that is not positive. The text "0" is
  not empty, so it passes the check \<open>!weightInput || !measureDate\<close>; \<open>parseFloat\<close> makes
  0 of it, and the record with weight 0 is sent to the store with no message shown.
\<close>

theorem weight_zero_reaches_store_counterexample:
  "\<not> isPositive (parseFloat (weightInput zeroWeightState))
   \<and> remoteCalls (snd (handleWeightSubmit Resolved zeroWeightState)) =
       [AddDoc (str ''weight_records'')
          [(''weight'', VNumber (Finite 0)), (''date'', VString (str ''2025-04-01'')),
           (''timestamp'', VTime (Some 1743465600000))]]
   \<and> alerts (snd (handleWeightSubmit Resolved zeroWeightState)) = []"
proof -
  have "str ''0'' \<noteq> []" and "str ''2025-04-01'' \<noteq> []"
    by (simp_all add: str_def)
  then show ?thesis
    by (simp add: zeroWeightState_def initialState_def handler_defs parseFloat_zero parse_0401
                  isPositive_def)
qed

text \<open>
  C3, amended: the weight-record create checks locally that the weight field and the date
  are both non-empty. When either is empty it shows the validation message and makes no
  call to the store, leaving the state as it was. When both are non-empty it makes one
  insert carrying whatever \<open>parseFloat\<close> reads from the weight field, positive or not,
  and does not show the validation message.
\<close>

theorem weight_validation_is_presence_only:
  "(weightInput s = [] \<or> measureDate s = []
      \<longrightarrow> handleWeightSubmit r s = (s, [Alert msgWeightValidation])
          \<and> remoteCalls (snd (handleWeightSubmit r s)) = [])
   \<and> (weightInput s \<noteq> [] \<and> measureDate s \<noteq> []
      \<longrightarrow> remoteCalls (snd (handleWeightSubmit r s)) =
            [AddDoc (str ''weight_records'')
               [(''weight'', VNumber (parseFloat (weightInput s))),
                (''date'', VString (measureDate s)),
                (''timestamp'', VTime (parseDate (measureDate s)))]]
          \<and> msgWeightValidation \<notin> set (alerts (snd (handleWeightSubmit r s))))"
  by (cases r) (auto simp: handler_defs msgWeightValidation_def msgWeightFailed_def)

theorem weight_validation_is_presence_only_witness:
  "weightInput (initialState (str ''2025-04-01'')) = []
   \<and> handleWeightSubmit Resolved (initialState (str ''2025-04-01''))
       = (initialState (str ''2025-04-01''), [Alert msgWeightValidation])
   \<and> weightInput zeroWeightState \<noteq> [] \<and> measureDate zeroWeightState \<noteq> []
   \<and> remoteCalls (snd (handleWeightSubmit Resolved zeroWeightState)) =
       [AddDoc (str ''weight_records'')
          [(''weight'', VNumber (parseFloat (str ''0''))),
           (''date'', VString (str ''2025-04-01'')),
           (''timestamp'', VTime (parseDate (str ''2025-04-01'')))]]"
  using weight_validation_is_presence_only [of "initialState (str ''2025-04-01'')" Resolved]
        weight_validation_is_presence_only [of zeroWeightState Resolved]
  by (simp add: zeroWeightState_def initialState_def str_def)

subsection \<open>Failures of the store\<close>

text \<open>
  \<open>handleDelete\<close> has no \<open>try\<close> at all: a rejected \<open>deleteDoc\<close> is neither logged nor
  shown, and the handler's promise rejects with nobody to take it.
\<close>

lemma delete_failure_unhandled:
  "handleDelete True ident colName (Rejected err) s =
     (s, [Confirm msgConfirmDelete, Remote (DeleteDoc colName ident), UnhandledRejection err])"
  by (simp add: handler_defs)

text \<open>
  C4, as the spec states it, fails twice. When the store rejects the update of
  \<open>toggleBought\<close>, the \<open>catch\<close> of that handler logs the error and shows nothing to the
  user. When the store rejects a confirmed delete, nothing catches the rejection: no
  message is shown and nothing is logged.
\<close>

theorem write_failures_not_all_notified_counterexample:
  "toggleBought sampleItem (Rejected (str ''unavailable'')) (initialState (str ''2025-04-01''))
     = (initialState (str ''2025-04-01''),
        [Remote (UpdateDoc (str ''shopping_list'') (str ''item1'') [(''isBought'', VBool True)]),
         ConsoleError (str ''unavailable'')])
   \<and> alerts (snd (toggleBought sampleItem (Rejected (str ''unavailable''))
                     (initialState (str ''2025-04-01'')))) = []
   \<and> handleDelete True (str ''rec1'') (str ''records'') (Rejected (str ''unavailable''))
        editingState
     = (editingState,
        [Confirm msgConfirmDelete, Remote (DeleteDoc (str ''records'') (str ''rec1'')),
         UnhandledRejection (str ''unavailable'')])"
  by (simp add: handler_defs sampleItem_def)

text \<open>
  C4, amended: a rejected write of any of the three form submissions (food create or
  update, weight create, shopping create) is caught, the error is logged and a failure
  message is shown; a rejected \<open>toggleBought\<close> is caught and logged, with no message. In
  each case the store was called once, with no second attempt, and the state is what it
  was before the submission, the form fields included, with \<open>isSubmitting\<close> false.
\<close>

theorem submit_failures_notified_and_logged:
  "(brand s \<noteq> [] \<and> flavor s \<noteq> [] \<and> rating s \<noteq> 0 \<longrightarrow>
      fst (handleFoodSubmit env (Rejected err) s) = s\<lparr>isSubmitting := False\<rparr>
      \<and> length (remoteCalls (snd (handleFoodSubmit env (Rejected err) s))) = 1
      \<and> consoleErrors (snd (handleFoodSubmit env (Rejected err) s)) = [err]
      \<and> alerts (snd (handleFoodSubmit env (Rejected err) s)) = [msgUploadFailed])
   \<and> (weightInput s \<noteq> [] \<and> measureDate s \<noteq> [] \<longrightarrow>
      fst (handleWeightSubmit (Rejected err) s) = s\<lparr>isSubmitting := False\<rparr>
      \<and> length (remoteCalls (snd (handleWeightSubmit (Rejected err) s))) = 1
      \<and> consoleErrors (snd (handleWeightSubmit (Rejected err) s)) = [err]
      \<and> alerts (snd (handleWeightSubmit (Rejected err) s)) = [msgWeightFailed])
   \<and> (shopName s \<noteq> [] \<longrightarrow>
      fst (handleShoppingSubmit env (Rejected err) s) = s\<lparr>isSubmitting := False\<rparr>
      \<and> length (remoteCalls (snd (handleShoppingSubmit env (Rejected err) s))) = 1
      \<and> consoleErrors (snd (handleShoppingSubmit env (Rejected err) s)) = [err]
      \<and> alerts (snd (handleShoppingSubmit env (Rejected err) s)) = [msgShoppingFailed])
   \<and> fst (toggleBought item (Rejected err) s) = s
   \<and> length (remoteCalls (snd (toggleBought item (Rejected err) s))) = 1
   \<and> consoleErrors (snd (toggleBought item (Rejected err) s)) = [err]
   \<and> alerts (snd (toggleBought item (Rejected err) s)) = []"
  by (simp add: handler_defs)

theorem submit_failures_notified_and_logged_witness:
  "brand scenarioState \<noteq> [] \<and> flavor scenarioState \<noteq> [] \<and> rating scenarioState \<noteq> 0
   \<and> alerts (snd (handleFoodSubmit scenarioEnv (Rejected (str ''unavailable'')) scenarioState))
       = [msgUploadFailed]
   \<and> consoleErrors (snd (handleFoodSubmit scenarioEnv (Rejected (str ''unavailable''))
                            scenarioState)) = [str ''unavailable'']
   \<and> weightInput zeroWeightState \<noteq> [] \<and> measureDate zeroWeightState \<noteq> []
   \<and> alerts (snd (handleWeightSubmit (Rejected (str ''unavailable'')) zeroWeightState))
       = [msgWeightFailed]
   \<and> shopName shoppingState \<noteq> []
   \<and> alerts (snd (handleShoppingSubmit scenarioEnv (Rejected (str ''unavailable''))
                     shoppingState)) = [msgShoppingFailed]
   \<and> fst (handleShoppingSubmit scenarioEnv (Rejected (str ''unavailable'')) shoppingState)
       = shoppingState"
  using submit_failures_notified_and_logged
          [of scenarioState scenarioEnv "str ''unavailable''" sampleItem]
        submit_failures_notified_and_logged
          [of zeroWeightState scenarioEnv "str ''unavailable''" sampleItem]
        submit_failures_notified_and_logged
          [of shoppingState scenarioEnv "str ''unavailable''" sampleItem]
  by (simp add: scenarioState_def zeroWeightState_def shoppingState_def initialState_def
                str_def)

subsection \<open>The edit session and deletion\<close>

text \<open>
  C1, as the spec states it, fails. With the session in \<open>Editing(rec1)\<close>, a food snapshot
  that no longer holds \<open>rec1\<close> leaves the session in \<open>Editing(rec1)\<close> and the staged
  fields in the form: the snapshot callback sets \<open>foodRecords\<close> and nothing else.
\<close>

theorem snapshot_without_record_keeps_editing_counterexample:
  "session editingState = Editing (str ''rec1'')
   \<and> session (onFoodSnapshot [] editingState) = Editing (str ''rec1'')
   \<and> brand (onFoodSnapshot [] editingState) = str ''Halo''
   \<and> rating (onFoodSnapshot [] editingState) = 4"
  by (simp add: example_defs handleEdit_def session_def str_rec1)

lemma session_by_editingId: "editingId a = editingId b \<Longrightarrow> session a = session b"
  by (simp add: session_def)

lemma settle_session:
  "session (fst (settle p r s)) = session s
   \<or> (r = Resolved \<and> (\<exists>e. p = PendingFoodSubmit e \<and> truthy e))
   \<or> (r = Resolved \<and> (\<exists>d. p = PendingDelete (Some d) d))"
proof (cases r)
  case Resolved
  show ?thesis
  proof (cases p)
    case (PendingFoodSubmit e)
    then show ?thesis
      using Resolved
      by (cases "truthy e") (simp_all add: handleFoodSubmit_settle_def session_def Let_def)
  next
    case (PendingDelete e d)
    then show ?thesis
      using Resolved
      by (cases "e = Some d") (simp_all add: handleDelete_settle_def session_def)
  qed (simp_all add: Resolved handleWeightSubmit_settle_def handleShoppingSubmit_settle_def
         toggleBought_settle_def session_def)
next
  case (Rejected err)
  then show ?thesis
    by (cases p)
       (simp_all add: handleFoodSubmit_settle_def handleWeightSubmit_settle_def
          handleShoppingSubmit_settle_def handleDelete_settle_def toggleBought_settle_def
          session_def)
qed

lemma started_app: "started (s1, es, p) sys = Some nxt \<Longrightarrow> app nxt = s1"
  by (auto simp: started_def)

lemma food_start_session: "session (fst (handleFoodSubmit_start env s)) = session s"
  by (simp add: handleFoodSubmit_start_def session_def Let_def)

lemma weight_start_session: "session (fst (handleWeightSubmit_start s)) = session s"
  by (simp add: handleWeightSubmit_start_def session_def)

lemma shopping_start_session: "session (fst (handleShoppingSubmit_start env s)) = session s"
  by (simp add: handleShoppingSubmit_start_def session_def)

lemma delete_start_session: "fst (handleDelete_start c i col s) = s"
  by (simp add: handleDelete_start_def)

lemma toggle_start_session: "fst (toggleBought_start item s) = s"
  by (simp add: toggleBought_start_def)

lemma started_fst:
  "started res sys = Some nxt \<Longrightarrow> app nxt = fst res"
  by (cases res) (auto simp: started_def)

lemma step_ends_session_only:
  assumes st: "step ev sys = Some nxt" and before: "session (app sys) \<noteq> Idle"
    and after: "session (app nxt) = Idle"
  shows "ev = ClickCancelEdit
       \<or> (\<exists>rec. ev = ClickEdit rec \<and> f_id rec = [])
       \<or> (\<exists>j e. ev = Settle j Resolved \<and> j < length (inflight sys)
              \<and> inflight sys ! j = PendingFoodSubmit e \<and> truthy e)
       \<or> (\<exists>j d. ev = Settle j Resolved \<and> j < length (inflight sys)
              \<and> inflight sys ! j = PendingDelete (Some d) d)"
proof -
  have same: False if eq: "session (app nxt) = session (app sys)"
    using before after [unfolded eq] by (rule notE)
  have setter: False
    if "step ev sys = setState f sys" and "\<And>s. editingId (f s) = editingId s" for f
  proof -
    from that(1) st have "setState f sys = Some nxt"
      by simp
    then have "app nxt = f (app sys)"
      by (auto simp: setState_def)
    then have "editingId (app nxt) = editingId (app sys)"
      using that(2) by simp
    then have "session (app nxt) = session (app sys)"
      by (rule session_by_editingId)
    then show False by (rule same)
  qed
  show ?thesis
  proof (cases ev)
    case (SetCurrentTab t)
    have False
      by (rule setter [where f = "\<lambda>s. s\<lparr>currentTab := t\<rparr>"]) (simp_all add: SetCurrentTab)
    then show ?thesis ..
  next
    case (SetCategory c)
    have False
      by (rule setter [where f = "\<lambda>s. s\<lparr>category := c\<rparr>"]) (simp_all add: SetCategory)
    then show ?thesis ..
  next
    case (SetBrand v)
    have False
      by (rule setter [where f = "\<lambda>s. s\<lparr>brand := v\<rparr>"]) (simp_all add: SetBrand)
    then show ?thesis ..
  next
    case (SetFlavor v)
    have False
      by (rule setter [where f = "\<lambda>s. s\<lparr>flavor := v\<rparr>"]) (simp_all add: SetFlavor)
    then show ?thesis ..
  next
    case (SetRating n)
    have False
      by (rule setter [where f = "\<lambda>s. s\<lparr>rating := n\<rparr>"]) (simp_all add: SetRating)
    then show ?thesis ..
  next
    case (SetNotes v)
    have False
      by (rule setter [where f = "\<lambda>s. s\<lparr>notesText := v\<rparr>"]) (simp_all add: SetNotes)
    then show ?thesis ..
  next
    case (SetFilterCategory fc)
    have False
      by (rule setter [where f = "\<lambda>s. s\<lparr>filterCategory := fc\<rparr>"]) (simp_all add: SetFilterCategory)
    then show ?thesis ..
  next
    case (SetSortBy sb)
    have False
      by (rule setter [where f = "\<lambda>s. s\<lparr>sortBy := sb\<rparr>"]) (simp_all add: SetSortBy)
    then show ?thesis ..
  next
    case (SetWeightInput v)
    have False
      by (rule setter [where f = "\<lambda>s. s\<lparr>weightInput := v\<rparr>"]) (simp_all add: SetWeightInput)
    then show ?thesis ..
  next
    case (SetMeasureDate v)
    have False
      by (rule setter [where f = "\<lambda>s. s\<lparr>measureDate := v\<rparr>"]) (simp_all add: SetMeasureDate)
    then show ?thesis ..
  next
    case (SetShopName v)
    have False
      by (rule setter [where f = "\<lambda>s. s\<lparr>shopName := v\<rparr>"]) (simp_all add: SetShopName)
    then show ?thesis ..
  next
    case (SetShopNote v)
    have False
      by (rule setter [where f = "\<lambda>s. s\<lparr>shopNote := v\<rparr>"]) (simp_all add: SetShopNote)
    then show ?thesis ..
  next
    case (FoodSnapshot data)
    have False
      by (rule setter [where f = "onFoodSnapshot data"]) (simp_all add: FoodSnapshot onFoodSnapshot_def)
    then show ?thesis ..
  next
    case (WeightSnapshot data)
    have False
      by (rule setter [where f = "onWeightSnapshot data"]) (simp_all add: WeightSnapshot onWeightSnapshot_def)
    then show ?thesis ..
  next
    case (ShoppingSnapshot data)
    have False
      by (rule setter [where f = "onShoppingSnapshot data"]) (simp_all add: ShoppingSnapshot onShoppingSnapshot_def)
    then show ?thesis ..
  next
    case (SubmitFood env)
    with st have "started (handleFoodSubmit_start env (app sys)) sys = Some nxt"
      by (simp split: if_splits)
    then have "app nxt = fst (handleFoodSubmit_start env (app sys))"
      by (rule started_fst)
    then have False
      using same by (simp add: food_start_session)
    then show ?thesis ..
  next
    case SubmitWeight
    with st have "started (handleWeightSubmit_start (app sys)) sys = Some nxt"
      by (simp split: if_splits)
    then have "app nxt = fst (handleWeightSubmit_start (app sys))"
      by (rule started_fst)
    then have False
      using same by (simp add: weight_start_session)
    then show ?thesis ..
  next
    case (SubmitShopping env)
    with st have "started (handleShoppingSubmit_start env (app sys)) sys = Some nxt"
      by (simp split: if_splits)
    then have "app nxt = fst (handleShoppingSubmit_start env (app sys))"
      by (rule started_fst)
    then have False
      using same by (simp add: shopping_start_session)
    then show ?thesis ..
  next
    case (ClickEdit rec)
    with st have
      "started (fst (handleEdit rec (app sys)), snd (handleEdit rec (app sys)), None) sys
         = Some nxt"
      by simp
    then have "app nxt = fst (handleEdit rec (app sys))"
      by (simp add: started_app)
    then have "session (app nxt) = (if f_id rec = [] then Idle else Editing (f_id rec))"
      by (simp add: handleEdit_def session_def)
    with after have "f_id rec = []"
      by (simp split: if_splits)
    with ClickEdit show ?thesis by simp
  next
    case ClickCancelEdit
    then show ?thesis by simp
  next
    case (ClickDelete confirmed ident colName)
    with st have "started (handleDelete_start confirmed ident colName (app sys)) sys = Some nxt"
      by simp
    then have "app nxt = fst (handleDelete_start confirmed ident colName (app sys))"
      by (rule started_fst)
    then have False
      using same by (simp add: delete_start_session)
    then show ?thesis ..
  next
    case (ClickToggle item)
    with st have "started (toggleBought_start item (app sys)) sys = Some nxt"
      by simp
    then have "app nxt = fst (toggleBought_start item (app sys))"
      by (rule started_fst)
    then have False
      using same by (simp add: toggle_start_session)
    then show ?thesis ..
  next
    case (Settle k r)
    with st have k: "k < length (inflight sys)"
      and a: "app nxt = fst (settle (inflight sys ! k) r (app sys))"
      by (auto split: if_splits)
    from settle_session [of "inflight sys ! k" r "app sys"] a same
    have "(r = Resolved \<and> (\<exists>e. inflight sys ! k = PendingFoodSubmit e \<and> truthy e))
          \<or> (r = Resolved \<and> (\<exists>d. inflight sys ! k = PendingDelete (Some d) d))"
      by auto
    with Settle k show ?thesis by auto
  qed
qed

lemma own_delete_settles:
  assumes "k < length (inflight sys)" and "inflight sys ! k = PendingDelete (Some ident) ident"
    and "step (Settle k Resolved) sys = Some nxt"
  shows "app nxt = handleCancelEdit (app sys) \<and> effects nxt = effects sys"
  using assms by (auto simp: handleDelete_settle_def)


lemma delete_run: "run deleteEvents (initialSystem (str ''2025-04-01'')) = Some deletingSystem"
  by (simp add: deleteEvents_def deletingSystem_def example_defs handleEdit_def
                initialSystem_def setState_def started_def handleDelete_start_def)

lemma delete_settle: "step (Settle 0 Resolved) deletingSystem = Some deletedSystem"
  by (simp add: deletingSystem_def deletedSystem_def handleDelete_settle_def)

text \<open>
  The test \<open>editingId === id\<close> of \<open>handleDelete\<close> reads the \<open>editingId\<close> of the render in
  which the delete was clicked. When the delete settles, the session that is ended is the
  one of that moment, whichever record it is editing by then.
\<close>

lemma late_delete_ends_current_session:
  "handleDelete_settle (Some ident) ident Resolved s = (handleCancelEdit s, [])"
  by (simp add: handleDelete_settle_def)

text \<open>
  C1, amended: a synchronized food snapshot, with or without the record being edited,
  leaves the edit session and every staged form field as they are; no snapshot ends an
  edit session. A deletion ends one only through this client's own delete: the delete
  was clicked while the deleted record was the one being edited, the user confirmed it,
  and the store accepted it. When such a delete of \<open>id\<close> settles with the controller
  still in \<open>Editing(id)\<close>, the controller is idle afterwards, the staged brand, flavor,
  rating and notes are cleared while the staged category stays, and nothing is shown
  beyond the confirmation already asked. The only other events that end an edit session
  are the cancel button, a successful update, and the edit of a record with an empty
  identity.
\<close>

theorem edit_session_ends_on_own_delete_only:
  "editingId (onFoodSnapshot data s) = editingId s
   \<and> session (onFoodSnapshot data s) = session s
   \<and> category (onFoodSnapshot data s) = category s
   \<and> brand (onFoodSnapshot data s) = brand s
   \<and> flavor (onFoodSnapshot data s) = flavor s
   \<and> rating (onFoodSnapshot data s) = rating s
   \<and> notesText (onFoodSnapshot data s) = notesText s
   \<and> (editingId s = Some ident \<longrightarrow>
        session (fst (handleDelete True ident colName Resolved s)) = Idle
        \<and> brand (fst (handleDelete True ident colName Resolved s)) = []
        \<and> flavor (fst (handleDelete True ident colName Resolved s)) = []
        \<and> rating (fst (handleDelete True ident colName Resolved s)) = 0
        \<and> notesText (fst (handleDelete True ident colName Resolved s)) = []
        \<and> category (fst (handleDelete True ident colName Resolved s)) = category s
        \<and> snd (handleDelete True ident colName Resolved s)
            = [Confirm msgConfirmDelete, Remote (DeleteDoc colName ident)])
   \<and> step (ClickDelete confirmed ident colName) sys =
        Some \<lparr>app = app sys,
              inflight = inflight sys
                @ (if confirmed then [PendingDelete (editingId (app sys)) ident] else []),
              effects = effects sys
                @ (if confirmed
                   then [Confirm msgConfirmDelete, Remote (DeleteDoc colName ident)]
                   else [Confirm msgConfirmDelete])\<rparr>
   \<and> (k < length (inflight sys) \<and> inflight sys ! k = PendingDelete (Some ident) ident
        \<and> editingId (app sys) = Some ident \<and> step (Settle k Resolved) sys = Some nxt \<longrightarrow>
        session (app nxt) = Idle \<and> brand (app nxt) = [] \<and> flavor (app nxt) = []
        \<and> rating (app nxt) = 0 \<and> notesText (app nxt) = []
        \<and> category (app nxt) = category (app sys) \<and> effects nxt = effects sys)
   \<and> (step ev sys = Some nxt \<and> session (app sys) \<noteq> Idle \<and> session (app nxt) = Idle \<longrightarrow>
        ev = ClickCancelEdit
        \<or> (\<exists>rec. ev = ClickEdit rec \<and> f_id rec = [])
        \<or> (\<exists>j e. ev = Settle j Resolved \<and> j < length (inflight sys)
               \<and> inflight sys ! j = PendingFoodSubmit e \<and> truthy e)
        \<or> (\<exists>j d. ev = Settle j Resolved \<and> j < length (inflight sys)
               \<and> inflight sys ! j = PendingDelete (Some d) d))"
proof -
  have snapshot: "editingId (onFoodSnapshot data s) = editingId s
   \<and> session (onFoodSnapshot data s) = session s
   \<and> category (onFoodSnapshot data s) = category s
   \<and> brand (onFoodSnapshot data s) = brand s
   \<and> flavor (onFoodSnapshot data s) = flavor s
   \<and> rating (onFoodSnapshot data s) = rating s
   \<and> notesText (onFoodSnapshot data s) = notesText s"
    by (simp add: onFoodSnapshot_def session_def)
  have atomic: "session (fst (handleDelete True ident colName Resolved s)) = Idle
        \<and> brand (fst (handleDelete True ident colName Resolved s)) = []
        \<and> flavor (fst (handleDelete True ident colName Resolved s)) = []
        \<and> rating (fst (handleDelete True ident colName Resolved s)) = 0
        \<and> notesText (fst (handleDelete True ident colName Resolved s)) = []
        \<and> category (fst (handleDelete True ident colName Resolved s)) = category s
        \<and> snd (handleDelete True ident colName Resolved s)
            = [Confirm msgConfirmDelete, Remote (DeleteDoc colName ident)]"
    if "editingId s = Some ident"
    using that by (simp add: handler_defs)
  have click: "step (ClickDelete confirmed ident colName) sys =
        Some \<lparr>app = app sys,
              inflight = inflight sys
                @ (if confirmed then [PendingDelete (editingId (app sys)) ident] else []),
              effects = effects sys
                @ (if confirmed
                   then [Confirm msgConfirmDelete, Remote (DeleteDoc colName ident)]
                   else [Confirm msgConfirmDelete])\<rparr>"
    by (simp add: started_def handleDelete_start_def)
  have settled: "session (app nxt) = Idle \<and> brand (app nxt) = [] \<and> flavor (app nxt) = []
        \<and> rating (app nxt) = 0 \<and> notesText (app nxt) = []
        \<and> category (app nxt) = category (app sys) \<and> effects nxt = effects sys"
    if inrange: "k < length (inflight sys)"
      and waiting: "inflight sys ! k = PendingDelete (Some ident) ident"
      and "editingId (app sys) = Some ident"
      and settles: "step (Settle k Resolved) sys = Some nxt"
  proof -
    from own_delete_settles [OF inrange waiting settles]
    have "app nxt = handleCancelEdit (app sys)" and "effects nxt = effects sys"
      by simp_all
    then show ?thesis
      by (simp add: handleCancelEdit_def session_def)
  qed
  have only: "ev = ClickCancelEdit
        \<or> (\<exists>rec. ev = ClickEdit rec \<and> f_id rec = [])
        \<or> (\<exists>j e. ev = Settle j Resolved \<and> j < length (inflight sys)
               \<and> inflight sys ! j = PendingFoodSubmit e \<and> truthy e)
        \<or> (\<exists>j d. ev = Settle j Resolved \<and> j < length (inflight sys)
               \<and> inflight sys ! j = PendingDelete (Some d) d)"
    if "step ev sys = Some nxt" and "session (app sys) \<noteq> Idle" and "session (app nxt) = Idle"
    using that by (rule step_ends_session_only)
  from snapshot atomic click settled only show ?thesis by blast
qed

theorem edit_session_ends_on_own_delete_only_witness:
  "editingId editingState = Some (str ''rec1'')
   \<and> session (onFoodSnapshot [] editingState) = Editing (str ''rec1'')
   \<and> session (fst (handleDelete True (str ''rec1'') (str ''records'') Resolved editingState))
       = Idle
   \<and> brand (fst (handleDelete True (str ''rec1'') (str ''records'') Resolved editingState)) = []
   \<and> category (fst (handleDelete True (str ''rec1'') (str ''records'') Resolved editingState))
       = dry
   \<and> run deleteEvents (initialSystem (str ''2025-04-01'')) = Some deletingSystem
   \<and> inflight deletingSystem ! 0 = PendingDelete (Some (str ''rec1'')) (str ''rec1'')
   \<and> editingId (app deletingSystem) = Some (str ''rec1'')
   \<and> session (app deletingSystem) \<noteq> Idle
   \<and> step (Settle 0 Resolved) deletingSystem = Some deletedSystem
   \<and> session (app deletedSystem) = Idle
   \<and> brand (app deletedSystem) = []
   \<and> category (app deletedSystem) = dry"
proof -
  have editing: "editingId editingState = Some (str ''rec1'')"
    and staged: "session editingState = Editing (str ''rec1'')"
    and chosen: "category editingState = dry"
    by (simp_all add: example_defs handleEdit_def session_def str_rec1)
  have waiting: "inflight deletingSystem ! 0 = PendingDelete (Some (str ''rec1'')) (str ''rec1'')"
    and size: "length (inflight deletingSystem) = 1"
    and current: "app deletingSystem = editingState"
    by (simp_all add: deletingSystem_def)
  from edit_session_ends_on_own_delete_only
         [where data = "[]" and s = editingState and ident = "str ''rec1''"
            and colName = "str ''records''" and k = 0 and sys = deletingSystem
            and nxt = deletedSystem and ev = "Settle 0 Resolved" and confirmed = True]
  show ?thesis
    by (simp add: delete_run delete_settle editing staged chosen waiting size current
             del: step.simps)
qed

subsection \<open>Partial updates\<close>

lemma remoteCalls_append: "remoteCalls (es @ fs) = remoteCalls es @ remoteCalls fs"
  by (simp add: remoteCalls_def)

lemma settle_no_remote: "remoteCalls (snd (settle p r s)) = []"
  by (cases p; cases r)
     (simp_all add: handleFoodSubmit_settle_def handleWeightSubmit_settle_def
        handleShoppingSubmit_settle_def handleDelete_settle_def toggleBought_settle_def
        remoteCalls_def Let_def)

lemma food_start_calls:
  "list_all mutableFieldsOnly (remoteCalls (fst (snd (handleFoodSubmit_start env s))))"
  by (simp add: handleFoodSubmit_start_def remoteCalls_def mutableFieldsOnly_def Let_def
           split: option.splits)

lemma step_updates_mutable_only:
  assumes "step ev sys = Some sys'" and "list_all mutableFieldsOnly (remoteCalls (effects sys))"
  shows "list_all mutableFieldsOnly (remoteCalls (effects sys'))"
proof (cases ev)
  case (SubmitFood env)
  with assms(1) have
    "started (handleFoodSubmit_start env (app sys)) sys = Some sys'"
    by (simp split: if_splits)
  then have "effects sys' = effects sys @ fst (snd (handleFoodSubmit_start env (app sys)))"
    by (cases "handleFoodSubmit_start env (app sys)") (auto simp: started_def)
  with assms(2) food_start_calls show ?thesis
    by (simp add: remoteCalls_append)
next
  case (Settle k r)
  with assms(1) have
    "effects sys' = effects sys @ snd (settle (inflight sys ! k) r (app sys))"
    by (auto split: if_splits)
  with assms(2) show ?thesis
    by (simp add: remoteCalls_append settle_no_remote)
qed (use assms in \<open>auto simp: setState_def started_def remoteCalls_def mutableFieldsOnly_def
        handleWeightSubmit_start_def handleShoppingSubmit_start_def handleEdit_def
        handleDelete_start_def toggleBought_start_def
      split: if_splits\<close>)

lemma run_updates_mutable_only:
  "run evs sys = Some sys' \<Longrightarrow> list_all mutableFieldsOnly (remoteCalls (effects sys))
     \<Longrightarrow> list_all mutableFieldsOnly (remoteCalls (effects sys'))"
proof (induction evs arbitrary: sys)
  case Nil
  then show ?case by simp
next
  case (Cons ev evs)
  from Cons.prems(1) obtain mid where "step ev sys = Some mid" and "run evs mid = Some sys'"
    by (auto split: option.splits)
  with Cons.IH Cons.prems(2) show ?case
    using step_updates_mutable_only by blast
qed

lemma edit_run: "run editEvents (initialSystem (str ''2025-04-01'')) = Some updatingSystem"
  by (simp add: editEvents_def updatingSystem_def example_defs handleEdit_def
                initialSystem_def setState_def started_def canSubmit_def submitDisabled_def
                handleFoodSubmit_start_def Let_def str_def)

text \<open>
  C7: every partial update writes the mutable fields and nothing else. A food submission
  in edit mode makes one \<open>updateDoc\<close> on the edited record whose fields are exactly
  category, brand, flavor, rating and notes, with the values of the form; \<open>toggleBought\<close>
  makes one \<open>updateDoc\<close> whose only field is \<open>isBought\<close>, negated. Over every run of
  the component from its initial state, each \<open>updateDoc\<close> ever made has one of these two
  shapes, so none writes \<open>date\<close> or \<open>timestamp\<close>.
\<close>

theorem partial_updates_write_mutable_fields_only:
  "(brand s \<noteq> [] \<and> flavor s \<noteq> [] \<and> rating s \<noteq> 0 \<and> editingId s = Some ident \<and> ident \<noteq> []
      \<longrightarrow> remoteCalls (snd (handleFoodSubmit env r s)) =
            [UpdateDoc (str ''records'') ident
               [(''category'', VCategory (category s)), (''brand'', VString (brand s)),
                (''flavor'', VString (flavor s)), (''rating'', VInt (rating s)),
                (''notes'', VString (notesText s))]])
   \<and> remoteCalls (snd (toggleBought item r s)) =
        [UpdateDoc (str ''shopping_list'') (i_id item)
           [(''isBought'', VBool (\<not> i_isBought item))]]
   \<and> (run evs (initialSystem todayISO) = Some sys
        \<and> UpdateDoc col docId p \<in> set (remoteCalls (effects sys))
      \<longrightarrow> mutableFieldsOnly (UpdateDoc col docId p)
          \<and> ''date'' \<notin> set (map fst p) \<and> ''timestamp'' \<notin> set (map fst p))"
proof -
  have a: "remoteCalls (snd (handleFoodSubmit env r s)) =
            [UpdateDoc (str ''records'') ident
               [(''category'', VCategory (category s)), (''brand'', VString (brand s)),
                (''flavor'', VString (flavor s)), (''rating'', VInt (rating s)),
                (''notes'', VString (notesText s))]]"
    if "brand s \<noteq> []" "flavor s \<noteq> []" "rating s \<noteq> 0" "editingId s = Some ident" "ident \<noteq> []"
    using that by (cases r) (simp_all add: handler_defs)
  have b: "remoteCalls (snd (toggleBought item r s)) =
        [UpdateDoc (str ''shopping_list'') (i_id item)
           [(''isBought'', VBool (\<not> i_isBought item))]]"
    by (cases r) (simp_all add: handler_defs)
  have c: "mutableFieldsOnly (UpdateDoc col docId p)
          \<and> ''date'' \<notin> set (map fst p) \<and> ''timestamp'' \<notin> set (map fst p)"
    if reach: "run evs (initialSystem todayISO) = Some sys"
      and made: "UpdateDoc col docId p \<in> set (remoteCalls (effects sys))"
  proof -
    have "list_all mutableFieldsOnly (remoteCalls (effects (initialSystem todayISO)))"
      by (simp add: initialSystem_def remoteCalls_def)
    from run_updates_mutable_only [OF reach this] made
    have m: "mutableFieldsOnly (UpdateDoc col docId p)"
      by (simp add: list_all_iff)
    then have "map fst p = [''category'', ''brand'', ''flavor'', ''rating'', ''notes'']
               \<or> map fst p = [''isBought'']"
      by (auto simp: mutableFieldsOnly_def)
    then have "''date'' \<notin> set (map fst p) \<and> ''timestamp'' \<notin> set (map fst p)"
      by auto
    with m show ?thesis by simp
  qed
  from a b c show ?thesis by blast
qed

theorem partial_updates_write_mutable_fields_only_witness:
  "brand editingState \<noteq> [] \<and> flavor editingState \<noteq> [] \<and> rating editingState \<noteq> 0
   \<and> editingId editingState = Some (str ''rec1'') \<and> str ''rec1'' \<noteq> []
   \<and> remoteCalls (snd (handleFoodSubmit scenarioEnv Resolved editingState)) =
            [UpdateDoc (str ''records'') (str ''rec1'')
               [(''category'', VCategory dry), (''brand'', VString (str ''Halo'')),
                (''flavor'', VString (str ''tuna'')), (''rating'', VInt 4),
                (''notes'', VString (str ''ok''))]]
   \<and> run editEvents (initialSystem (str ''2025-04-01'')) = Some updatingSystem
   \<and> mutableFieldsOnly (UpdateDoc (str ''records'') (str ''rec1'')
               [(''category'', VCategory dry), (''brand'', VString (str ''Halo'')),
                (''flavor'', VString (str ''tuna'')), (''rating'', VInt 4),
                (''notes'', VString (str ''ok''))])"
  using partial_updates_write_mutable_fields_only
          [of editingState "str ''rec1''" scenarioEnv Resolved sampleItem editEvents
              "str ''2025-04-01''" updatingSystem "str ''records''" "str ''rec1''"
              "[(''category'', VCategory dry), (''brand'', VString (str ''Halo'')),
                (''flavor'', VString (str ''tuna'')), (''rating'', VInt 4),
                (''notes'', VString (str ''ok''))]"]
  by (simp add: edit_run)
     (simp add: example_defs handleEdit_def updatingSystem_def remoteCalls_def str_def)

subsection \<open>The category shared by the food form and the shopping form\<close>

text \<open>
  C10: the shopping form has no category of its own. A shopping-item create stores the
  value of the one \<open>category\<close> state variable. Whatever the food form's selector last set
  is the category of the next shopping item, and so is the category staged by starting
  the edit of a food record, although the shopping form was not touched in between.
\<close>

theorem shopping_item_takes_shared_category:
  "(shopName s \<noteq> [] \<longrightarrow>
      remoteCalls (snd (handleShoppingSubmit env r s)) =
        [AddDoc (str ''shopping_list'')
           [(''category'', VCategory (category s)), (''name'', VString (shopName s)),
            (''note'', VString (shopNote s)), (''isBought'', VBool False),
            (''timestamp'', VInt (now env))]])
   \<and> (shopName s \<noteq> [] \<longrightarrow>
      remoteCalls (snd (handleShoppingSubmit env r (fst (handleEdit rec s)))) =
        [AddDoc (str ''shopping_list'')
           [(''category'', VCategory (f_category rec)), (''name'', VString (shopName s)),
            (''note'', VString (shopNote s)), (''isBought'', VBool False),
            (''timestamp'', VInt (now env))]])
   \<and> (shopName s \<noteq> [] \<and> step (SetCategory c) sys = Some sys' \<and> app sys = s \<longrightarrow>
      remoteCalls (snd (handleShoppingSubmit env r (app sys'))) =
        [AddDoc (str ''shopping_list'')
           [(''category'', VCategory c), (''name'', VString (shopName s)),
            (''note'', VString (shopNote s)), (''isBought'', VBool False),
            (''timestamp'', VInt (now env))]])"
  by (cases r) (auto simp: handler_defs setState_def)

theorem shopping_item_takes_shared_category_witness:
  "shopName shoppingState \<noteq> []
   \<and> category shoppingState = canned
   \<and> remoteCalls (snd (handleShoppingSubmit scenarioEnv Resolved shoppingState)) =
        [AddDoc (str ''shopping_list'')
           [(''category'', VCategory canned), (''name'', VString (str ''can'')),
            (''note'', VString []), (''isBought'', VBool False),
            (''timestamp'', VInt 1743465600000)]]
   \<and> remoteCalls (snd (handleShoppingSubmit scenarioEnv Resolved
                          (fst (handleEdit sampleRecord shoppingState)))) =
        [AddDoc (str ''shopping_list'')
           [(''category'', VCategory dry), (''name'', VString (str ''can'')),
            (''note'', VString []), (''isBought'', VBool False),
            (''timestamp'', VInt 1743465600000)]]
   \<and> step (SetCategory pouch) shoppingSystem
        = Some (shoppingSystem\<lparr>app := shoppingState\<lparr>category := pouch\<rparr>\<rparr>)
   \<and> remoteCalls (snd (handleShoppingSubmit scenarioEnv Resolved
                          (shoppingState\<lparr>category := pouch\<rparr>))) =
        [AddDoc (str ''shopping_list'')
           [(''category'', VCategory pouch), (''name'', VString (str ''can'')),
            (''note'', VString []), (''isBought'', VBool False),
            (''timestamp'', VInt 1743465600000)]]"
  using shopping_item_takes_shared_category
          [of shoppingState scenarioEnv Resolved sampleRecord pouch shoppingSystem
              "shoppingSystem\<lparr>app := shoppingState\<lparr>category := pouch\<rparr>\<rparr>"]
  by (simp add: shoppingSystem_def setState_def)
     (simp add: shoppingState_def initialState_def sampleRecord_def scenarioEnv_def str_def)

section \<open>Properties of the display projection\<close>

lemma insert_cmp_insort_key:
  fixes f :: "'a \<Rightarrow> 'k::linorder"
  assumes "\<And>x y. (cmp x y \<le> 0) = (f x \<le> f y)"
  shows "insert_cmp cmp x ys = insort_key f x ys"
  by (induction ys) (simp_all add: assms)

lemma sort_cmp_sort_key:
  fixes f :: "'a \<Rightarrow> 'k::linorder"
  assumes "\<And>x y. (cmp x y \<le> 0) = (f x \<le> f y)"
  shows "sort_cmp cmp xs = sort_key f xs"
proof -
  have "insert_cmp cmp = insort_key f"
    by (intro ext) (rule insert_cmp_insort_key [OF assms])
  then show ?thesis by (simp add: sort_cmp_def sort_key_def)
qed

lemma sort_cmp_stable:
  fixes f :: "'a \<Rightarrow> 'k::linorder"
  assumes "\<And>x y. (cmp x y \<le> 0) = (f x \<le> f y)" and "\<And>x y. (cmp x y = 0) = (f x = f y)"
  shows "filter (\<lambda>x. cmp r x = 0) (sort_cmp cmp xs) = filter (\<lambda>x. cmp r x = 0) xs"
proof -
  have "filter (\<lambda>x. f x = f r) (sort_key f xs) = filter (\<lambda>x. f x = f r) xs"
    by (rule sort_key_stable)
  moreover have "(\<lambda>x. cmp r x = 0) = (\<lambda>x. f x = f r)"
    by (auto simp: assms(2))
  ultimately show ?thesis by (simp add: sort_cmp_sort_key [OF assms(1)])
qed

lemma compareRecords_stable:
  "filter (\<lambda>x. compareRecords ck sb r x = 0) (sort_cmp (compareRecords ck sb) xs)
     = filter (\<lambda>x. compareRecords ck sb r x = 0) xs"
proof (cases sb)
  case sort_date
  show ?thesis
    by (rule sort_cmp_stable [where f = "\<lambda>x. - f_timestamp x"])
       (auto simp: compareRecords_def sort_date)
next
  case sort_rating
  show ?thesis
    by (rule sort_cmp_stable [where f = "\<lambda>x. - f_rating x"])
       (auto simp: compareRecords_def sort_rating)
next
  case sort_brand
  show ?thesis
    by (rule sort_cmp_stable [where f = "\<lambda>x. ck (f_brand x)"])
       (auto simp: compareRecords_def localeCompare_def sort_brand)
qed

text \<open>
  C8: the display projection is pure and deterministic, and stable. For the food records
  held at an address of the store, every filter and every sort key: no array that was in
  the store is changed, the state's own array among them; the result is a new array, the
  filtered records in sorted order; projecting again from the store as the first
  projection left it gives the same sequence; and the records that compare equal to any
  given record stand in the result in the order they had in the snapshot.
\<close>

theorem displayed_records_pure_and_stable:
  assumes "foodRecordsAt < length h"
  shows "(\<forall>a < length h. snd (displayedRecords ck fc sb foodRecordsAt h) ! a = h ! a)
       \<and> snd (displayedRecords ck fc sb foodRecordsAt h) ! foodRecordsAt = h ! foodRecordsAt
       \<and> fst (displayedRecords ck fc sb foodRecordsAt h) = length h
       \<and> snd (displayedRecords ck fc sb foodRecordsAt h)
             ! fst (displayedRecords ck fc sb foodRecordsAt h)
           = sort_cmp (compareRecords ck sb) (filter (matchesFilter fc) (h ! foodRecordsAt))
       \<and> snd (displayedRecords ck fc sb foodRecordsAt
                 (snd (displayedRecords ck fc sb foodRecordsAt h)))
             ! fst (displayedRecords ck fc sb foodRecordsAt
                      (snd (displayedRecords ck fc sb foodRecordsAt h)))
           = snd (displayedRecords ck fc sb foodRecordsAt h)
               ! fst (displayedRecords ck fc sb foodRecordsAt h)
       \<and> filter (\<lambda>x. compareRecords ck sb r x = 0)
            (snd (displayedRecords ck fc sb foodRecordsAt h)
               ! fst (displayedRecords ck fc sb foodRecordsAt h))
           = filter (\<lambda>x. compareRecords ck sb r x = 0)
               (filter (matchesFilter fc) (h ! foodRecordsAt))"
proof -
  let ?shown = "sort_cmp (compareRecords ck sb) (filter (matchesFilter fc) (h ! foodRecordsAt))"
  have d: "displayedRecords ck fc sb foodRecordsAt h' =
             (length h', h' @ [sort_cmp (compareRecords ck sb)
                                 (filter (matchesFilter fc) (h' ! foodRecordsAt))])" for h'
    by (simp add: displayedRecords_def array_filter_def array_sort_def)
  have again: "(h @ [?shown]) ! foodRecordsAt = h ! foodRecordsAt"
    using assms by (simp add: nth_append)
  show ?thesis
    using assms by (simp add: d again nth_append compareRecords_stable)
qed

theorem displayed_records_pure_and_stable_witness:
  "(0::nat) < length [threeRecords]
   \<and> snd (displayedRecords length filter_all sort_rating 0 [threeRecords]) ! 0 = threeRecords
   \<and> snd (displayedRecords length filter_all sort_rating 0 [threeRecords])
        ! fst (displayedRecords length filter_all sort_rating 0 [threeRecords])
       = [threeRecords ! 1, threeRecords ! 0, threeRecords ! 2]"
  using displayed_records_pure_and_stable
          [of 0 "[threeRecords]" length filter_all sort_rating "threeRecords ! 0"]
  by (simp add: threeRecords_def sampleRecord_def matchesFilter_def sort_cmp_def
                compareRecords_def displayedRecords_def array_filter_def array_sort_def)

section \<open>Properties of the submission flag\<close>

lemma settle_submission_clears:
  "isSubmission p \<Longrightarrow> \<not> isSubmitting (fst (settle p r s))"
  by (cases p; cases r)
     (simp_all add: handleFoodSubmit_settle_def handleWeightSubmit_settle_def
                    handleShoppingSubmit_settle_def Let_def)

lemma settle_other_keeps_flag:
  "\<not> isSubmission p \<Longrightarrow> isSubmitting (fst (settle p r s)) = isSubmitting s"
  by (cases p; cases r)
     (simp_all add: handleDelete_settle_def toggleBought_settle_def handleCancelEdit_def)

lemma filter_without_nth:
  assumes "k < length xs"
  shows "length (filter P (take k xs @ drop (Suc k) xs)) =
           length (filter P xs) - (if P (xs ! k) then 1 else 0)"
proof -
  have "length (filter P xs) = length (filter P (take k xs @ xs ! k # drop (Suc k) xs))"
    by (rule arg_cong [where f = "\<lambda>l. length (filter P l)"])
       (rule id_take_nth_drop [OF assms])
  also have "\<dots> = length (filter P (take k xs)) + (if P (xs ! k) then 1 else 0)
                    + length (filter P (drop (Suc k) xs))"
    by simp
  finally show ?thesis by simp
qed

lemma nth_in_filter:
  "k < length xs \<Longrightarrow> P (xs ! k) \<Longrightarrow> filter P xs \<noteq> []"
  by (auto simp: filter_empty_conv)


lemma setState_keeps:
  assumes "setState f sys = Some sys'" and "\<And>s. isSubmitting (f s) = isSubmitting s"
    and "flagMatchesInFlight sys"
  shows "flagMatchesInFlight sys'"
proof -
  from assms(1) have "sys' = sys\<lparr>app := f (app sys)\<rparr>"
    by (simp add: setState_def)
  then show ?thesis
    using assms(2,3) by (simp add: flagMatchesInFlight_def submissionsInFlight_def)
qed

lemma started_submission:
  assumes "started (s1, es, p) sys = Some sys'" and "flagMatchesInFlight sys"
    and "\<not> isSubmitting (app sys)"
    and "case p of None \<Rightarrow> \<not> isSubmitting s1 | Some q \<Rightarrow> isSubmission q \<and> isSubmitting s1"
  shows "flagMatchesInFlight sys'"
proof -
  from assms(1) have a: "app sys' = s1"
    and i: "inflight sys' = inflight sys @ (case p of None \<Rightarrow> [] | Some q \<Rightarrow> [q])"
    by (auto simp: started_def)
  from assms(2,3) have "filter isSubmission (inflight sys) = []"
    by (simp add: flagMatchesInFlight_def submissionsInFlight_def)
  then show ?thesis
    using a i assms(4)
    by (cases p) (simp_all add: flagMatchesInFlight_def submissionsInFlight_def)
qed

lemma started_other:
  assumes "started (s1, es, p) sys = Some sys'" and "flagMatchesInFlight sys"
    and "isSubmitting s1 = isSubmitting (app sys)"
    and "case p of None \<Rightarrow> True | Some q \<Rightarrow> \<not> isSubmission q"
  shows "flagMatchesInFlight sys'"
proof -
  from assms(1) have a: "app sys' = s1"
    and i: "inflight sys' = inflight sys @ (case p of None \<Rightarrow> [] | Some q \<Rightarrow> [q])"
    by (auto simp: started_def)
  then show ?thesis
    using assms(2,3,4)
    by (cases p) (simp_all add: flagMatchesInFlight_def submissionsInFlight_def)
qed


lemma step_keeps_flag_match:
  assumes "step ev sys = Some sys'" and "flagMatchesInFlight sys"
  shows "flagMatchesInFlight sys'"
proof -
  note setter_defs = handleCancelEdit_def onFoodSnapshot_def onWeightSnapshot_def
    onShoppingSnapshot_def
  have setter: "flagMatchesInFlight sys'"
    if "step ev sys = setState f sys" and "\<And>s. isSubmitting (f s) = isSubmitting s" for f
    using that assms setState_keeps [of f sys sys'] by simp
  show ?thesis
  proof (cases ev)
  case (SubmitFood env)
  with assms(1) have c: "\<not> isSubmitting (app sys)"
    and st: "started (handleFoodSubmit_start env (app sys)) sys = Some sys'"
    by (simp_all add: canSubmit_def submitDisabled_def split: if_splits)
  obtain s1 es p where h: "handleFoodSubmit_start env (app sys) = (s1, es, p)"
    by (cases "handleFoodSubmit_start env (app sys)") auto
  have "case p of None \<Rightarrow> \<not> isSubmitting s1 | Some q \<Rightarrow> isSubmission q \<and> isSubmitting s1"
    using h c by (auto simp: handleFoodSubmit_start_def Let_def split: if_splits)
  with st h assms(2) c show ?thesis by (simp add: started_submission)
next
  case SubmitWeight
  with assms(1) have c: "\<not> isSubmitting (app sys)"
    and st: "started (handleWeightSubmit_start (app sys)) sys = Some sys'"
    by (simp_all add: canSubmit_def submitDisabled_def split: if_splits)
  obtain s1 es p where h: "handleWeightSubmit_start (app sys) = (s1, es, p)"
    by (cases "handleWeightSubmit_start (app sys)") auto
  have "case p of None \<Rightarrow> \<not> isSubmitting s1 | Some q \<Rightarrow> isSubmission q \<and> isSubmitting s1"
    using h c by (auto simp: handleWeightSubmit_start_def split: if_splits)
  with st h assms(2) c show ?thesis by (simp add: started_submission)
next
  case (SubmitShopping env)
  with assms(1) have c: "\<not> isSubmitting (app sys)"
    and st: "started (handleShoppingSubmit_start env (app sys)) sys = Some sys'"
    by (simp_all add: canSubmit_def submitDisabled_def split: if_splits)
  obtain s1 es p where h: "handleShoppingSubmit_start env (app sys) = (s1, es, p)"
    by (cases "handleShoppingSubmit_start env (app sys)") auto
  have "case p of None \<Rightarrow> \<not> isSubmitting s1 | Some q \<Rightarrow> isSubmission q \<and> isSubmitting s1"
    using h c by (auto simp: handleShoppingSubmit_start_def split: if_splits)
  with st h assms(2) c show ?thesis by (simp add: started_submission)
next
  case (ClickEdit rec)
  with assms(1) have
    "started (fst (handleEdit rec (app sys)), snd (handleEdit rec (app sys)), None) sys = Some sys'"
    by simp
  from started_other [OF this assms(2)] show ?thesis
    by (simp add: handleEdit_def)
next
  case (ClickDelete confirmed ident colName)
  with assms(1) have
    st: "started (handleDelete_start confirmed ident colName (app sys)) sys = Some sys'"
    by simp
  obtain s1 es p where h: "handleDelete_start confirmed ident colName (app sys) = (s1, es, p)"
    by (cases "handleDelete_start confirmed ident colName (app sys)") auto
  have "isSubmitting s1 = isSubmitting (app sys)"
    and "case p of None \<Rightarrow> True | Some q \<Rightarrow> \<not> isSubmission q"
    using h by (auto simp: handleDelete_start_def split: if_splits)
  with st h assms(2) show ?thesis by (simp add: started_other)
next
  case (ClickToggle item)
  with assms(1) have
    "started (app sys, [Remote (UpdateDoc (str ''shopping_list'') (i_id item)
                    [(''isBought'', VBool (\<not> i_isBought item))])], Some PendingToggle) sys
       = Some sys'"
    by (simp add: toggleBought_start_def)
  from started_other [OF this assms(2)] show ?thesis by simp
next
  case (Settle k r)
  with assms(1) have k: "k < length (inflight sys)"
    and a: "app sys' = fst (settle (inflight sys ! k) r (app sys))"
    and i: "inflight sys' = take k (inflight sys) @ drop (Suc k) (inflight sys)"
    by (auto split: if_splits)
  show ?thesis
  proof (cases "isSubmission (inflight sys ! k)")
    case True
    then have "submissionsInFlight sys \<noteq> []"
      using k by (simp add: submissionsInFlight_def nth_in_filter)
    with assms(2) have "length (submissionsInFlight sys) = 1"
      by (cases "isSubmitting (app sys)") (simp_all add: flagMatchesInFlight_def)
    then show ?thesis
      using True k a i
      by (simp add: flagMatchesInFlight_def submissionsInFlight_def filter_without_nth
                    settle_submission_clears del: filter_append)
  next
    case False
    then show ?thesis
      using k a i assms(2)
      by (simp add: flagMatchesInFlight_def submissionsInFlight_def filter_without_nth
                    settle_other_keeps_flag del: filter_append)
  qed
next
  case (SetCurrentTab t)
  then show ?thesis
    by (intro setter [where f = "\<lambda>s. s\<lparr>currentTab := t\<rparr>"]) (simp_all add: setter_defs)
next
  case (SetCategory c)
  then show ?thesis
    by (intro setter [where f = "\<lambda>s. s\<lparr>category := c\<rparr>"]) (simp_all add: setter_defs)
next
  case (SetBrand v)
  then show ?thesis
    by (intro setter [where f = "\<lambda>s. s\<lparr>brand := v\<rparr>"]) (simp_all add: setter_defs)
next
  case (SetFlavor v)
  then show ?thesis
    by (intro setter [where f = "\<lambda>s. s\<lparr>flavor := v\<rparr>"]) (simp_all add: setter_defs)
next
  case (SetRating n)
  then show ?thesis
    by (intro setter [where f = "\<lambda>s. s\<lparr>rating := n\<rparr>"]) (simp_all add: setter_defs)
next
  case (SetNotes v)
  then show ?thesis
    by (intro setter [where f = "\<lambda>s. s\<lparr>notesText := v\<rparr>"]) (simp_all add: setter_defs)
next
  case (SetFilterCategory fc)
  then show ?thesis
    by (intro setter [where f = "\<lambda>s. s\<lparr>filterCategory := fc\<rparr>"]) (simp_all add: setter_defs)
next
  case (SetSortBy sb)
  then show ?thesis
    by (intro setter [where f = "\<lambda>s. s\<lparr>sortBy := sb\<rparr>"]) (simp_all add: setter_defs)
next
  case (SetWeightInput v)
  then show ?thesis
    by (intro setter [where f = "\<lambda>s. s\<lparr>weightInput := v\<rparr>"]) (simp_all add: setter_defs)
next
  case (SetMeasureDate v)
  then show ?thesis
    by (intro setter [where f = "\<lambda>s. s\<lparr>measureDate := v\<rparr>"]) (simp_all add: setter_defs)
next
  case (SetShopName v)
  then show ?thesis
    by (intro setter [where f = "\<lambda>s. s\<lparr>shopName := v\<rparr>"]) (simp_all add: setter_defs)
next
  case (SetShopNote v)
  then show ?thesis
    by (intro setter [where f = "\<lambda>s. s\<lparr>shopNote := v\<rparr>"]) (simp_all add: setter_defs)
next
  case ClickCancelEdit
  then show ?thesis
    by (intro setter [where f = "handleCancelEdit"]) (simp_all add: setter_defs)
next
  case (FoodSnapshot data)
  then show ?thesis
    by (intro setter [where f = "onFoodSnapshot data"]) (simp_all add: setter_defs)
next
  case (WeightSnapshot data)
  then show ?thesis
    by (intro setter [where f = "onWeightSnapshot data"]) (simp_all add: setter_defs)
next
  case (ShoppingSnapshot data)
  then show ?thesis
    by (intro setter [where f = "onShoppingSnapshot data"]) (simp_all add: setter_defs)
qed
qed

lemma run_keeps_flag_match:
  "run evs sys = Some sys' \<Longrightarrow> flagMatchesInFlight sys \<Longrightarrow> flagMatchesInFlight sys'"
proof (induction evs arbitrary: sys)
  case Nil
  then show ?case by simp
next
  case (Cons ev evs)
  from Cons.prems(1) obtain mid where "step ev sys = Some mid" and "run evs mid = Some sys'"
    by (auto split: option.splits)
  with Cons.IH Cons.prems(2) show ?case
    using step_keeps_flag_match by blast
qed

lemma initial_flag_match: "flagMatchesInFlight (initialSystem d)"
  by (simp add: flagMatchesInFlight_def initialSystem_def initialState_def submissionsInFlight_def)


lemma scenario_run: "run scenarioEvents (initialSystem (str ''2025-04-01'')) = Some submittedSystem"
  by (simp add: scenarioEvents_def submittedSystem_def scenarioState_def scenarioEnv_def
                initialSystem_def initialState_def setState_def started_def canSubmit_def
                submitDisabled_def handleFoodSubmit_start_def Let_def)

lemma scenario_settle:
  "step (Settle 0 (Rejected (str ''unavailable''))) submittedSystem = Some settledSystem"
  by (simp add: submittedSystem_def settledSystem_def scenarioState_def initialState_def
                handleFoodSubmit_settle_def)

lemma step_clears_flag_only_on_settle:
  assumes "step ev sys = Some sys'" and "isSubmitting (app sys)" and "\<not> isSubmitting (app sys')"
  shows "\<exists>k r. ev = Settle k r \<and> k < length (inflight sys) \<and> isSubmission (inflight sys ! k)"
proof (cases ev)
  case (Settle k r)
  with assms(1) have k: "k < length (inflight sys)"
    and a: "app sys' = fst (settle (inflight sys ! k) r (app sys))"
    by (auto split: if_splits)
  have "isSubmission (inflight sys ! k)"
  proof (rule ccontr)
    assume "\<not> isSubmission (inflight sys ! k)"
    then have "isSubmitting (app sys') = isSubmitting (app sys)"
      by (simp add: a settle_other_keeps_flag)
    with assms(2,3) show False by simp
  qed
  with Settle k show ?thesis by simp
qed (use assms in \<open>auto simp: setState_def started_def canSubmit_def submitDisabled_def
        handleEdit_def handleCancelEdit_def handleDelete_start_def toggleBought_start_def
        onFoodSnapshot_def onWeightSnapshot_def onShoppingSnapshot_def
      split: if_splits\<close>)

text \<open>
  C9: the three create operations share the one flag \<open>isSubmitting\<close>. In every state the
  component can reach from its initial state, at most one submission is waiting for the
  store, and one is waiting exactly when the flag is set. While one is waiting, the
  submit button of each of the three forms is disabled and none of the three submit
  events can happen. When the waiting submission settles, resolved or rejected, the flag
  is cleared and no submission is waiting any more; and no other event clears a set
  flag, so the flag set by a submission is cleared once, at the end of that submission.
\<close>

theorem single_submission_in_flight:
  assumes "run evs (initialSystem todayISO) = Some sys"
  shows "length (submissionsInFlight sys) \<le> 1
       \<and> (isSubmitting (app sys) \<longleftrightarrow> submissionsInFlight sys \<noteq> [])
       \<and> (submissionsInFlight sys \<noteq> [] \<longrightarrow>
            submitDisabled tab_food (app sys) \<and> submitDisabled tab_weight (app sys)
            \<and> submitDisabled tab_shopping (app sys)
            \<and> step (SubmitFood env) sys = None \<and> step SubmitWeight sys = None
            \<and> step (SubmitShopping env) sys = None)
       \<and> (k < length (inflight sys) \<and> isSubmission (inflight sys ! k) \<longrightarrow>
            (case step (Settle k r) sys of
               None \<Rightarrow> False
             | Some sys' \<Rightarrow> \<not> isSubmitting (app sys') \<and> submissionsInFlight sys' = []))
       \<and> (step ev sys = Some sys' \<and> isSubmitting (app sys) \<and> \<not> isSubmitting (app sys') \<longrightarrow>
            (\<exists>j q. ev = Settle j q \<and> j < length (inflight sys)
                   \<and> isSubmission (inflight sys ! j)))"
proof -
  have inv: "flagMatchesInFlight sys"
    using run_keeps_flag_match [OF assms initial_flag_match] .
  have one: "length (submissionsInFlight sys) \<le> 1"
    using inv by (simp add: flagMatchesInFlight_def split: if_splits)
  have flag: "isSubmitting (app sys) \<longleftrightarrow> submissionsInFlight sys \<noteq> []"
    using inv by (cases "isSubmitting (app sys)") (auto simp: flagMatchesInFlight_def)
  have blocked: "submitDisabled tab_food (app sys) \<and> submitDisabled tab_weight (app sys)
            \<and> submitDisabled tab_shopping (app sys)
            \<and> step (SubmitFood env) sys = None \<and> step SubmitWeight sys = None
            \<and> step (SubmitShopping env) sys = None"
    if "submissionsInFlight sys \<noteq> []"
    using that flag by (simp add: submitDisabled_def canSubmit_def)
  have cleared: "case step (Settle k r) sys of
               None \<Rightarrow> False
             | Some sys' \<Rightarrow> \<not> isSubmitting (app sys') \<and> submissionsInFlight sys' = []"
    if inrange: "k < length (inflight sys)" and sub: "isSubmission (inflight sys ! k)"
  proof -
    obtain nxt where s: "step (Settle k r) sys = Some nxt"
      using inrange by simp
    then have off: "\<not> isSubmitting (app nxt)"
      using inrange sub by (auto simp: settle_submission_clears)
    have "flagMatchesInFlight nxt"
      using step_keeps_flag_match [OF s inv] .
    with off have "submissionsInFlight nxt = []"
      by (simp add: flagMatchesInFlight_def)
    with s off show ?thesis by simp
  qed
  have only: "\<exists>j q. ev = Settle j q \<and> j < length (inflight sys) \<and> isSubmission (inflight sys ! j)"
    if "step ev sys = Some sys'" and "isSubmitting (app sys)" and "\<not> isSubmitting (app sys')"
    using that by (rule step_clears_flag_only_on_settle)
  from one flag blocked cleared only show ?thesis by blast
qed

theorem single_submission_in_flight_witness:
  "run scenarioEvents (initialSystem (str ''2025-04-01'')) = Some submittedSystem
   \<and> isSubmitting (app submittedSystem)
   \<and> submissionsInFlight submittedSystem = [PendingFoodSubmit None]
   \<and> submitDisabled tab_weight (app submittedSystem)
   \<and> step SubmitWeight submittedSystem = None
   \<and> step (SubmitShopping scenarioEnv) submittedSystem = None
   \<and> step (Settle 0 (Rejected (str ''unavailable''))) submittedSystem = Some settledSystem
   \<and> \<not> isSubmitting (app settledSystem)
   \<and> submissionsInFlight settledSystem = []"
proof -
  have waiting: "submissionsInFlight submittedSystem = [PendingFoodSubmit None]"
    and first: "inflight submittedSystem ! 0 = PendingFoodSubmit None"
    and size: "length (inflight submittedSystem) = 1"
    and flag: "isSubmitting (app submittedSystem)"
    by (simp_all add: submittedSystem_def submissionsInFlight_def)
  from single_submission_in_flight
          [OF scenario_run, of scenarioEnv 0 "Rejected (str ''unavailable'')"
              "Settle 0 (Rejected (str ''unavailable''))" settledSystem]
  show ?thesis
    by (simp add: scenario_run scenario_settle waiting first size flag del: step.simps)
qed

end
